theory Spec2Isabelle
  imports Complex_Main "HOL-Library.Word" "HOL-Library.AList" "HOL-Library.Sublist"
begin

section \<open>Errors and panics\<close>

text \<open>
  A Go \<open>error\<close> value is modelled by its message; \<open>nil\<close> is \<open>None\<close> of
  \<open>error option\<close>. A run-time panic (nil pointer dereference, index or slice bound out of
  range, assignment to an entry of a nil map) is a value of its own: it is not caught by the
  \<open>if err != nil\<close> checks of the callers and unwinds through them.
\<close>

datatype panic = NilPointerDereference | IndexOutOfRange | SliceBoundsOutOfRange | NilMapAssignment

datatype error = Error string | Panic panic

section \<open>Resource quantities and resource requirements\<close>

text \<open>
  \<open>resource.Quantity\<close> is a fixed-point decimal number; it is modelled by its numeric
  value. The zero value of the Go type is the number 0. \<open>Cmp\<close> is the three-way numeric
  comparison. \<open>v1.ResourceList\<close> is \<open>map[ResourceName]Quantity\<close>: an association list
  whose order is the order in which \<open>range\<close> happens to visit the map; indexing a missing
  key yields the zero quantity, and so does indexing a nil map.
\<close>

type_synonym Quantity = rat

definition Cmp :: "Quantity \<Rightarrow> Quantity \<Rightarrow> int" where
  "Cmp q y = (if q < y then - 1 else if q = y then 0 else 1)"

type_synonym ResourceList = "(string \<times> Quantity) list"

definition index_ResourceList :: "ResourceList \<Rightarrow> string \<Rightarrow> Quantity" where
  "index_ResourceList m k = (case map_of m k of None \<Rightarrow> 0 | Some v \<Rightarrow> v)"

record ResourceRequirements =
  Limits :: ResourceList
  Requests :: ResourceList

text \<open>
  The loop \<open>for k, v := range xs { if (&v).Cmp(ys[k]) != 0 { return false } }\<close>;
  the result \<open>True\<close> means that the loop ran to its end.
\<close>

fun rangeCmp :: "ResourceList \<Rightarrow> ResourceList \<Rightarrow> bool" where
  "rangeCmp [] ys = True"
| "rangeCmp ((k, v) # xs) ys =
     (if Cmp v (index_ResourceList ys k) \<noteq> 0 then False else rangeCmp xs ys)"

definition compareResoucesAssumeFirstNotNil ::
  "ResourceRequirements \<Rightarrow> ResourceRequirements option \<Rightarrow> bool" where
  "compareResoucesAssumeFirstNotNil a b =
     (case b of
        None \<Rightarrow> length (Requests a) = 0
      | Some b' \<Rightarrow>
          if length (Requests b') = 0 then length (Requests a) = 0
          else if \<not> rangeCmp (Requests a) (Requests b') then False
          else if \<not> rangeCmp (Limits a) (Limits b') then False
          else True)"

definition compareResources ::
  "ResourceRequirements option \<Rightarrow> ResourceRequirements option \<Rightarrow> bool" where
  "compareResources a b =
     (let equal = True;
          equal = (case a of None \<Rightarrow> equal | Some a' \<Rightarrow> compareResoucesAssumeFirstNotNil a' b);
          equal = (case b of
                     None \<Rightarrow> equal
                   | Some b' \<Rightarrow> if equal then compareResoucesAssumeFirstNotNil b' a else equal)
      in equal)"

section \<open>The workload-set differ\<close>

text \<open>
  The fields of \<open>v1beta1.StatefulSet\<close> that \<open>compareStatefulSetWith\<close> reads, named by
  their path. Fields that the code compares with \<open>reflect.DeepEqual\<close> only are kept
  abstract (type parameters), with HOL equality standing for deep equality:
  \<open>'m\<close> for \<open>map[string]string\<close> (labels and annotations), \<open>'p\<close> for
  \<open>[]v1.ContainerPort\<close>, \<open>'e\<close> for \<open>[]v1.EnvVar\<close>, \<open>'v\<close> for
  \<open>v1.PersistentVolumeClaimSpec\<close>. Pointer fields are options.
\<close>

record ('p, 'e) Container =
  Image :: string
  Ports :: 'p
  Resources :: ResourceRequirements
  Env :: 'e

record ('m, 'v) PersistentVolumeClaim =
  claimName :: string
  claimAnnotations :: 'm
  claimSpec :: 'v

record ('m, 'p, 'e, 'v) StatefulSet =
  Replicas :: "32 word option"
  Containers :: "('p, 'e) Container list"
  ServiceAccountName :: string
  TerminationGracePeriodSeconds :: "64 word option"
  TemplateLabels :: 'm
  TemplateAnnotations :: 'm
  VolumeClaimTemplates :: "('m, 'v) PersistentVolumeClaim list"

record compareStatefulsetResult =
  match :: bool
  replace :: bool
  rollingUpdate :: bool
  reasons :: "string list"

text \<open>The zero value \<open>&compareStatefulsetResult{}\<close>.\<close>

definition emptyResult :: compareStatefulsetResult where
  "emptyResult = \<lparr>match = False, replace = False, rollingUpdate = False, reasons = []\<rparr>"

text \<open>\<open>fmt.Sprintf("%d", i)\<close> for a non-negative index.\<close>

function itoa :: "nat \<Rightarrow> string" where
  "itoa n =
     (if n < 10 then [''0123456789'' ! n]
      else itoa (n div 10) @ [''0123456789'' ! (n mod 10)])"
  by pat_completeness auto
termination
  by (relation "measure (\<lambda>n. n)") auto

declare itoa.simps [simp del]

text \<open>
  The locals \<open>match\<close>, \<open>needsReplace\<close>, \<open>needsRollUpdate\<close> and \<open>reasons\<close> of
  \<open>compareStatefulSetWith\<close> are carried in a \<open>compareStatefulsetResult\<close>.
\<close>

definition needsReplace :: "string \<Rightarrow> compareStatefulsetResult \<Rightarrow> compareStatefulsetResult" where
  "needsReplace reason st = st\<lparr>replace := True, reasons := reasons st @ [reason]\<rparr>"

definition needsRollUpdate :: "string \<Rightarrow> compareStatefulsetResult \<Rightarrow> compareStatefulsetResult" where
  "needsRollUpdate reason st = st\<lparr>rollingUpdate := True, reasons := reasons st @ [reason]\<rparr>"

definition needsBoth :: "string \<Rightarrow> compareStatefulsetResult \<Rightarrow> compareStatefulsetResult" where
  "needsBoth reason st =
     st\<lparr>replace := True, rollingUpdate := True, reasons := reasons st @ [reason]\<rparr>"

text \<open>
  The loop over \<open>c.Statefulset.Spec.VolumeClaimTemplates\<close>: the index runs over the live
  list and reads the new list at the same index, which panics when the new list is shorter.
\<close>

fun compareVolumeClaimTemplates ::
  "nat \<Rightarrow> ('m, 'v) PersistentVolumeClaim list \<Rightarrow> ('m, 'v) PersistentVolumeClaim list \<Rightarrow>
   compareStatefulsetResult \<Rightarrow> panic + compareStatefulsetResult" where
  "compareVolumeClaimTemplates i [] new st = Inr st"
| "compareVolumeClaimTemplates i (cur # curs) [] st = Inl IndexOutOfRange"
| "compareVolumeClaimTemplates i (cur # curs) (n # news) st =
     (let name = claimName cur in
      if name \<noteq> claimName n then
        compareVolumeClaimTemplates (Suc i) curs news
          (needsReplace (''new statefulset's name for volume '' @ itoa i
                         @ '' doesn't match the current one'') st)
      else
        let st = (if claimAnnotations cur \<noteq> claimAnnotations n
                  then needsReplace (''new statefulset's annotations for volume '' @ name
                                     @ '' doesn't match the current one'') st
                  else st);
            st = (if claimSpec cur \<noteq> claimSpec n
                  then needsReplace (''new statefulset's volumeClaimTemplates specification for volume ''
                                     @ name @ '' doesn't match the current one'') st
                  else st)
        in compareVolumeClaimTemplates (Suc i) curs news st)"

text \<open>The comparison of the first containers, \<open>Containers[0]\<close> of both objects.\<close>

definition compareContainers ::
  "('p, 'e) Container \<Rightarrow> ('p, 'e) Container \<Rightarrow> compareStatefulsetResult \<Rightarrow> compareStatefulsetResult" where
  "compareContainers container1 container2 st =
     (let st = (if Image container1 \<noteq> Image container2
                then needsRollUpdate ''new statefulset's container image doesn't match the current one'' st
                else st);
          st = (if Ports container1 \<noteq> Ports container2
                then needsRollUpdate ''new statefulset's container ports don't match the current one'' st
                else st);
          st = (if \<not> compareResources (Some (Resources container1)) (Some (Resources container2))
                then needsRollUpdate ''new statefulset's container resources don't match the current ones'' st
                else st);
          st = (if Env container1 \<noteq> Env container2
                then needsRollUpdate ''new statefulset's container environment doesn't match the current one'' st
                else st)
      in st)"

text \<open>The checks of the pod template and of the number of volume claim templates.\<close>

definition compareTemplate ::
  "('m, 'p, 'e, 'v) StatefulSet \<Rightarrow> ('m, 'p, 'e, 'v) StatefulSet \<Rightarrow> compareStatefulsetResult \<Rightarrow>
   panic + compareStatefulsetResult" where
  "compareTemplate c statefulSet st =
     (let st = (if ServiceAccountName c \<noteq> ServiceAccountName statefulSet
                then needsBoth ''new statefulset's serviceAccountName service asccount name doesn't match the current one'' st
                else st)
      in case TerminationGracePeriodSeconds c of
           None \<Rightarrow> Inl NilPointerDereference
         | Some t1 \<Rightarrow>
        (case TerminationGracePeriodSeconds statefulSet of
           None \<Rightarrow> Inl NilPointerDereference
         | Some t2 \<Rightarrow>
           let st = (if t1 \<noteq> t2
                     then needsBoth ''new statefulset's terminationGracePeriodSeconds  doesn't match the current one'' st
                     else st);
               st = (if TemplateLabels c \<noteq> TemplateLabels statefulSet
                     then needsBoth ''new statefulset's metadata labels doesn't match the current one'' st
                     else st);
               st = (if TemplateAnnotations c \<noteq> TemplateAnnotations statefulSet
                     then needsBoth ''new statefulset's metadata annotations doesn't match the current one'' st
                     else st);
               st = (if length (VolumeClaimTemplates c) \<noteq> length (VolumeClaimTemplates statefulSet)
                     then needsReplace ''new statefulset's volumeClaimTemplates contains different number of volumes to the old one'' st
                     else st)
           in Inr st))"

text \<open>The checks of the replica counts and of the numbers of containers.\<close>

definition compareCounts ::
  "32 word \<Rightarrow> 32 word \<Rightarrow> ('m, 'p, 'e, 'v) StatefulSet \<Rightarrow> ('m, 'p, 'e, 'v) StatefulSet \<Rightarrow>
   compareStatefulsetResult" where
  "compareCounts r1 r2 c statefulSet =
     (let st = \<lparr>match = True, replace = False, rollingUpdate = False, reasons = []\<rparr>;
          st = (if r1 \<noteq> r2
                then st\<lparr>match := False,
                        reasons := reasons st @ [''new statefulset's number of replicas doesn't match the current one'']\<rparr>
                else st);
          st = (if length (Containers c) \<noteq> length (Containers statefulSet)
                then needsRollUpdate ''new statefulset's container specification doesn't match the current one'' st
                else st)
      in st)"

text \<open>The last statement before the \<open>return\<close>.\<close>

definition setMatch :: "compareStatefulsetResult \<Rightarrow> compareStatefulsetResult" where
  "setMatch st = (if rollingUpdate st \<or> replace st then st\<lparr>match := False\<rparr> else st)"

definition compareStatefulSetWith ::
  "('m, 'p, 'e, 'v) StatefulSet \<Rightarrow> ('m, 'p, 'e, 'v) StatefulSet \<Rightarrow> panic + compareStatefulsetResult" where
  "compareStatefulSetWith c statefulSet =
     (case Replicas c of
        None \<Rightarrow> Inl NilPointerDereference
      | Some r1 \<Rightarrow>
     (case Replicas statefulSet of
        None \<Rightarrow> Inl NilPointerDereference
      | Some r2 \<Rightarrow>
        let st = compareCounts r1 r2 c statefulSet
        in if length (Containers c) = 0 then Inr emptyResult
           else
            (case compareTemplate c statefulSet st of
               Inl p \<Rightarrow> Inl p
             | Inr st \<Rightarrow>
            (case compareVolumeClaimTemplates 0 (VolumeClaimTemplates c) (VolumeClaimTemplates statefulSet) st of
               Inl p \<Rightarrow> Inl p
             | Inr st \<Rightarrow>
              (case Containers c of
                 [] \<Rightarrow> Inl IndexOutOfRange
               | container1 # _ \<Rightarrow>
                (case Containers statefulSet of
                   [] \<Rightarrow> Inl IndexOutOfRange
                 | container2 # _ \<Rightarrow>
                     Inr (setMatch (compareContainers container1 container2 st))))))))"

section \<open>Strings\<close>

text \<open>
  Go strings are byte sequences, as \<open>string\<close> is. \<open>strings.Contains\<close> and
  \<open>strings.LastIndex\<close> (the index of the last occurrence, \<open>-1\<close> when there is none).
\<close>

fun hasPrefix :: "string \<Rightarrow> string \<Rightarrow> bool" where
  "hasPrefix s [] = True"
| "hasPrefix [] (p # ps) = False"
| "hasPrefix (c # s) (p # ps) = (if c = p then hasPrefix s ps else False)"

fun Contains :: "string \<Rightarrow> string \<Rightarrow> bool" where
  "Contains [] substr = hasPrefix [] substr"
| "Contains (c # s) substr = (if hasPrefix (c # s) substr then True else Contains s substr)"

fun LastIndex :: "string \<Rightarrow> string \<Rightarrow> int" where
  "LastIndex [] substr = (if hasPrefix [] substr then 0 else - 1)"
| "LastIndex (c # s) substr =
     (let i = LastIndex s substr in
      if 0 \<le> i then i + 1 else if hasPrefix (c # s) substr then 0 else - 1)"

text \<open>The quoting \<open>'%v'\<close> and \<open>'%s'\<close> of the error messages.\<close>

definition quoted :: "string \<Rightarrow> string" where
  "quoted s = [CHR 0x27] @ s @ [CHR 0x27]"

section \<open>The success pattern of the filesystem resize\<close>

text \<open>
  \<open>ext2fsSuccessRegexp\<close> is a concatenation of single-character matchers, some of
  which carry \<open>+\<close>. A regular expression of this shape is a list of items: one character of
  a class, or one or more characters of a class. \<open>MatchString\<close> is not anchored: it asks
  for a match starting at any position.
\<close>

datatype regexp_item = One "char \<Rightarrow> bool" | OneOrMore "char \<Rightarrow> bool"

type_synonym Regexp = "regexp_item list"

fun matchHere :: "Regexp \<Rightarrow> string \<Rightarrow> bool" where
  "matchHere [] s = True"
| "matchHere (One p # r) [] = False"
| "matchHere (One p # r) (c # s) = (if p c then matchHere r s else False)"
| "matchHere (OneOrMore p # r) [] = False"
| "matchHere (OneOrMore p # r) (c # s) =
     (if p c then (if matchHere r s then True else matchHere (OneOrMore p # r) s) else False)"

fun MatchString :: "Regexp \<Rightarrow> string \<Rightarrow> bool" where
  "MatchString r [] = matchHere r []"
| "MatchString r (c # s) = (if matchHere r (c # s) then True else MatchString r s)"

definition literal :: "string \<Rightarrow> Regexp" where
  "literal s = map (\<lambda>c. One (\<lambda>x. x = c)) s"

text \<open>
  The classes \<open>\d\<close>, \<open>\w\<close>, \<open>[/a-z0-9]\<close> and \<open>.\<close> (any character but a newline).
\<close>

definition digit :: "char \<Rightarrow> bool" where
  "digit c = (c \<in> set ''0123456789'')"

definition wordChar :: "char \<Rightarrow> bool" where
  "wordChar c = (c \<in> set ''0123456789ABCDEFGHIJKLMNOPQRSTUVWXYZ_abcdefghijklmnopqrstuvwxyz'')"

definition deviceChar :: "char \<Rightarrow> bool" where
  "deviceChar c = (c \<in> set ''/abcdefghijklmnopqrstuvwxyz0123456789'')"

definition anyChar :: "char \<Rightarrow> bool" where
  "anyChar c = (c \<noteq> CHR 0x0A)"

text \<open>
  \<^verbatim>\<open>The filesystem on [/a-z0-9]+ is now \d+ \(\d+\w+\) blocks long.\<close>
\<close>

definition ext2fsSuccessRegexp :: Regexp where
  "ext2fsSuccessRegexp =
     literal ''The filesystem on '' @ [OneOrMore deviceChar] @ literal '' is now ''
     @ [OneOrMore digit] @ literal '' ('' @ [OneOrMore digit, OneOrMore wordChar]
     @ literal '') blocks long'' @ [One anyChar]"

section \<open>What the success pattern accepts\<close>

text \<open>
  What a regular expression of this shape denotes: the strings that are, item by item, one
  character of the class or a non-empty run of characters of the class.
\<close>

fun denotes :: "Regexp \<Rightarrow> string \<Rightarrow> bool" where
  "denotes [] s = (s = [])"
| "denotes (One p # r) s = (\<exists>c t. s = c # t \<and> p c \<and> denotes r t)"
| "denotes (OneOrMore p # r) s = (\<exists>cs t. s = cs @ t \<and> cs \<noteq> [] \<and> list_all p cs \<and> denotes r t)"

text \<open>
  The language of \<open>ext2fsSuccessRegexp\<close>, the expression of the source, written out (this
  is what the code accepts, not the pattern of the specification): somewhere in the output
  stands "The filesystem on \<open>device\<close> is now \<open>n\<close> (\<open>k\<close>\<open>unit\<close>) blocks long" followed by
  one more character, any but a newline, since the last \<open>.\<close> of the expression is not
  escaped.
\<close>

definition acceptedBySuccessRegexp :: "string \<Rightarrow> bool" where
  "acceptedBySuccessRegexp out =
     (\<exists>before device n k unit c after.
        out = before @ ''The filesystem on '' @ device @ '' is now '' @ n @ '' ('' @ k @ unit
              @ '') blocks long'' @ [c] @ after
        \<and> device \<noteq> [] \<and> list_all deviceChar device
        \<and> n \<noteq> [] \<and> list_all digit n
        \<and> k \<noteq> [] \<and> list_all digit k
        \<and> unit \<noteq> [] \<and> list_all wordChar unit
        \<and> c \<noteq> CHR 0x0A)"

section \<open>The success pattern of the specification\<close>

text \<open>
  The pattern in the words of the specification: the output matches "a pattern of the form
  The filesystem on \<open>device\<close> is now \<open>N\<close> (\<open>unit\<close>) blocks long." The specification does
  not say what the three placeholders range over; here they stand for any text. The
  sentence ends in a period.
\<close>

definition specSuccessPattern :: "string \<Rightarrow> bool" where
  "specSuccessPattern out =
     (\<exists>before device n unit after.
        out = before @ ''The filesystem on '' @ device @ '' is now '' @ n @ '' ('' @ unit
              @ '') blocks long.'' @ after)"

text \<open>
  The outputs that the specification lets pass: the output contains "Nothing to do", or it
  contains "on-line resizing required" and matches the pattern.
\<close>

definition specRecognisedOutput :: "string \<Rightarrow> bool" where
  "specRecognisedOutput out =
     (sublist ''Nothing to do'' out
      \<or> (sublist ''on-line resizing required'' out \<and> specSuccessPattern out))"

section \<open>Persistent volumes\<close>

record NamespacedName =
  Namespace :: string
  Name :: string

text \<open>
  Modelled from the spec: the \<open>String\<close> method of \<open>spec.NamespacedName\<close> (package
  \<open>pkg/spec\<close>) is not in the sources. It is the pod identity's string form, which
  \<open>%s\<close> prints: the namespace and the name joined by a slash.
\<close>

definition NamespacedName_String :: "NamespacedName \<Rightarrow> string" where
  "NamespacedName_String n = Namespace n @ ''/'' @ Name n"

record ObjectReference =
  refNamespace :: string
  refName :: string

text \<open>
  The fields of \<open>v1.PersistentVolume\<close> that the code reads: \<open>pv.Name\<close>,
  \<open>pv.Spec.Capacity\<close> (a map, \<open>None\<close> when nil), \<open>pv.Spec.ClaimRef\<close> (a pointer) and
  \<open>pv.Spec.AWSElasticBlockStore\<close> (a pointer to a struct, of which \<open>VolumeID\<close> is read).
\<close>

record PersistentVolume =
  pvName :: string
  Capacity :: "ResourceList option"
  ClaimRef :: "ObjectReference option"
  AWSElasticBlockStore :: "string option"

record Volume =
  Size :: string
  StorageClass :: string

text \<open>
  \<open>ScaledValue(0)\<close> is the value as an integer, rounded away from zero (overflow of
  \<open>int64\<close> is not modelled). Go's \<open>/\<close> on integers truncates towards zero.
\<close>

definition ScaledValue0 :: "Quantity \<Rightarrow> int" where
  "ScaledValue0 q = (if 0 \<le> q then \<lceil>q\<rceil> else \<lfloor>q\<rfloor>)"

definition quot :: "int \<Rightarrow> int \<Rightarrow> int" where
  "quot a b = sgn a * sgn b * (\<bar>a\<bar> div \<bar>b\<bar>)"

definition ResourceStorage :: string where
  "ResourceStorage = ''storage''"

definition capacityStorage :: "PersistentVolume \<Rightarrow> Quantity" where
  "capacityStorage pv =
     (case Capacity pv of None \<Rightarrow> 0 | Some m \<Rightarrow> index_ResourceList m ResourceStorage)"

definition getAWSVolumeId :: "PersistentVolume \<Rightarrow> error + string" where
  "getAWSVolumeId pv =
     (case AWSElasticBlockStore pv of
        None \<Rightarrow> Inl (Panic NilPointerDereference)
      | Some vid \<Rightarrow>
          if vid = [] then Inl (Error (''volume id is empty for volume '' @ pvName pv))
          else
            let idx = LastIndex vid ''/vol-'' + 1 in
            if idx = 0 then Inl (Error (''malfored EBS volume id '' @ vid))
            else Inr (drop (nat idx) vid))"

text \<open>
  \<open>constants.DataVolumeName\<close> is not in the sources: it is a parameter. The slice
  expression \<open>Name[len(DataVolumeName)+1:]\<close> panics when the name is shorter than that.
\<close>

definition getPodNameFromPersistentVolume :: "string \<Rightarrow> PersistentVolume \<Rightarrow> panic + NamespacedName" where
  "getPodNameFromPersistentVolume DataVolumeName pv =
     (case ClaimRef pv of
        None \<Rightarrow> Inl NilPointerDereference
      | Some ref \<Rightarrow>
          if length (refName ref) < length DataVolumeName + 1 then Inl SliceBoundsOutOfRange
          else Inr \<lparr>Namespace = refNamespace ref,
                    Name = drop (length DataVolumeName + 1) (refName ref)\<rparr>)"

section \<open>The volume-resize orchestrator\<close>

text \<open>
  The collaborators of \<open>updateVolumes\<close> are not in the sources; each is a parameter that
  gives the outcome of the call (\<open>None\<close> is a nil error): \<open>resource.ParseQuantity\<close>,
  \<open>c.listPersistentVolumes\<close>, \<open>volumes.ConnectToEC2\<close>, \<open>volumes.ResizeVolume\<close>,
  \<open>c.ExecCommand\<close> (the output and the error) and
  \<open>c.KubeClient.PersistentVolumes().Update\<close>, with the constant
  \<open>constants.DataVolumeName\<close>.
\<close>

record VolumeClients =
  ParseQuantity :: "string \<Rightarrow> string + Quantity"
  listPersistentVolumes :: "string + PersistentVolume list"
  ConnectToEC2 :: "string option"
  ResizeVolume :: "string \<Rightarrow> int \<Rightarrow> string option"
  ExecCommand :: "NamespacedName \<Rightarrow> string \<times> string option"
  PersistentVolumesUpdate :: "PersistentVolume \<Rightarrow> string option"
  DataVolumeName :: string

text \<open>
  The calls that leave the process, in the order in which they are made. Each carries the
  persistent volume of the loop iteration that makes it: \<open>ResizeVolumeCall pv id size\<close> is
  the block-storage call, \<open>ExecCommandCall pv pod\<close> the remote execution on the pod, and
  \<open>UpdateCall pv pv'\<close> the control-plane update that stores the record \<open>pv'\<close>.
\<close>

datatype call =
    ResizeVolumeCall PersistentVolume string int
  | ExecCommandCall PersistentVolume NamespacedName
  | UpdateCall PersistentVolume PersistentVolume



definition resizeVolumeFS :: "VolumeClients \<Rightarrow> NamespacedName \<Rightarrow> error option" where
  "resizeVolumeFS w podName =
     (case ExecCommand w podName of
        (out, Some err) \<Rightarrow> Some (Error err)
      | (out, None) \<Rightarrow>
          if Contains out ''Nothing to do''
             \<or> (Contains out ''on-line resizing required'' \<and> MatchString ext2fsSuccessRegexp out)
          then None
          else Some (Error (''unrecognized output: '' @ out @ '', assuming error'')))"

text \<open>
  The body of the loop of \<open>updateVolumes\<close> for one volume: the error that ends the loop (if
  any), the calls made, and the volume object as the iteration leaves it (the capacity is
  written into the object before the control-plane update is called).
\<close>

definition updateVolume ::
  "VolumeClients \<Rightarrow> Quantity \<Rightarrow> int \<Rightarrow> PersistentVolume \<Rightarrow> error option \<times> call list \<times> PersistentVolume" where
  "updateVolume w newQuantity newSize pv =
     (let cap = capacityStorage pv in
      if quot (ScaledValue0 cap) 1073741824 \<noteq> newSize then
        (case getAWSVolumeId pv of
           Inl err \<Rightarrow> (Some err, [], pv)
         | Inr awsVolumeId \<Rightarrow>
             let calls = [ResizeVolumeCall pv awsVolumeId newSize] in
            (case ResizeVolume w awsVolumeId newSize of
               Some err \<Rightarrow>
                 (Some (Error (''could not resize EBS volume '' @ awsVolumeId @ '': '' @ err)), calls, pv)
             | None \<Rightarrow>
                (case getPodNameFromPersistentVolume (DataVolumeName w) pv of
                   Inl p \<Rightarrow> (Some (Panic p), calls, pv)
                 | Inr podName \<Rightarrow>
                     let calls = calls @ [ExecCommandCall pv podName] in
                    (case resizeVolumeFS w podName of
                       Some (Panic p) \<Rightarrow> (Some (Panic p), calls, pv)
                     | Some (Error err) \<Rightarrow>
                         (Some (Error (''could not resize the filesystem on pod ''
                                       @ quoted (NamespacedName_String podName) @ '': '' @ err)),
                          calls, pv)
                     | None \<Rightarrow>
                        (case Capacity pv of
                           None \<Rightarrow> (Some (Panic NilMapAssignment), calls, pv)
                         | Some m \<Rightarrow>
                             let pv' = pv\<lparr>Capacity := Some (AList.update ResourceStorage newQuantity m)\<rparr>;
                                 calls = calls @ [UpdateCall pv pv']
                             in (case PersistentVolumesUpdate w pv' of
                                   Some err \<Rightarrow>
                                     (Some (Error (''could not update persistent volume: '' @ err)), calls, pv')
                                 | None \<Rightarrow> (None, calls, pv')))))))
      else (None, [], pv))"

text \<open>\<open>for _, pv := range pvs\<close>: the first error ends the loop.\<close>

fun updateVolumesLoop ::
  "VolumeClients \<Rightarrow> Quantity \<Rightarrow> int \<Rightarrow> PersistentVolume list \<Rightarrow>
   error option \<times> call list \<times> PersistentVolume list" where
  "updateVolumesLoop w newQuantity newSize [] = (None, [], [])"
| "updateVolumesLoop w newQuantity newSize (pv # pvs) =
     (case updateVolume w newQuantity newSize pv of
        (Some err, calls, pv') \<Rightarrow> (Some err, calls, pv' # pvs)
      | (None, calls, pv') \<Rightarrow>
          (case updateVolumesLoop w newQuantity newSize pvs of
             (r, calls', pvs') \<Rightarrow> (r, calls @ calls', pv' # pvs')))"

text \<open>
  The error of \<open>ParseQuantity\<close> is overwritten before it is read; on an error the
  quantity is the zero value.
\<close>

definition newQuantityOf :: "VolumeClients \<Rightarrow> Volume \<Rightarrow> Quantity" where
  "newQuantityOf w newVolume = (case ParseQuantity w (Size newVolume) of Inl err \<Rightarrow> 0 | Inr q \<Rightarrow> q)"

definition newSizeOf :: "VolumeClients \<Rightarrow> Volume \<Rightarrow> int" where
  "newSizeOf w newVolume = quot (ScaledValue0 (newQuantityOf w newVolume)) 1073741824"

definition updateVolumes ::
  "VolumeClients \<Rightarrow> Volume \<Rightarrow> error option \<times> call list \<times> PersistentVolume list" where
  "updateVolumes w newVolume =
     (let newQuantity = newQuantityOf w newVolume;
          newSize = newSizeOf w newVolume
      in case listPersistentVolumes w of
           Inl err \<Rightarrow> (Some (Error (''could not list persistent volumes: '' @ err)), [], [])
         | Inr pvs \<Rightarrow>
            (case ConnectToEC2 w of
               Some err \<Rightarrow> (Some (Error ''could not connect to EC2''), [], pvs)
             | None \<Rightarrow> updateVolumesLoop w newQuantity newSize pvs))"

section \<open>The pod-event queue\<close>

text \<open>
  Modelled from the spec: \<open>spec.PodEvent\<close> (package \<open>pkg/spec\<close>) is not in the sources;
  it is "an observed pod lifecycle signal: pod identity, resource version, event kind".
\<close>

datatype EventType = EventAdd | EventUpdate | EventDelete

record PodEvent =
  ResourceVersion :: string
  PodName :: NamespacedName
  EventType :: EventType

text \<open>The key function that \<open>New\<close> hands to \<open>cache.NewFIFO\<close>.\<close>

definition podEventsQueue_keyFunc :: "PodEvent \<Rightarrow> string" where
  "podEventsQueue_keyFunc e = NamespacedName_String (PodName e) @ ''-'' @ ResourceVersion e"

text \<open>
  Modelled from the spec: the queue (\<open>cache.FIFO\<close>) is not in the sources. It is "an
  ordered, de-duplicating structure" keyed by the key function; of its state the queue of
  keys is kept. Adding appends the key unless an entry with that key is queued already.
\<close>

definition FIFO_Add :: "('a \<Rightarrow> string) \<Rightarrow> 'a \<Rightarrow> string list \<Rightarrow> string list" where
  "FIFO_Add keyFunc obj queue =
     (let k = keyFunc obj in if k \<in> set queue then queue else queue @ [k])"

definition ReceivePodEvent :: "PodEvent \<Rightarrow> string list \<Rightarrow> string list" where
  "ReceivePodEvent event podEventsQueue = FIFO_Add podEventsQueue_keyFunc event podEventsQueue"

section \<open>The cluster\<close>

record PgUser =
  pgName :: string
  Password :: string
  Flags :: "string list"
  MemberOf :: "string list"

text \<open>
  Modelled from the spec: the status constants of \<open>spec.PostgresStatus\<close> (package
  \<open>pkg/spec\<close>) are not in the sources; the lifecycle flag is one of "Creating, Running,
  Updating, AddFailed, UpdateFailed". \<open>ClusterStatusUnknown\<close> is the value of the field
  before the first \<open>setStatus\<close>.
\<close>

datatype PostgresStatus =
    ClusterStatusUnknown
  | ClusterStatusCreating
  | ClusterStatusUpdating
  | ClusterStatusUpdateFailed
  | ClusterStatusAddFailed
  | ClusterStatusRunning

text \<open>
  The fields of \<open>spec.Postgresql\<close>, of \<open>config.Config\<close> and of \<open>v1.Service\<close> that the
  code reads. A Go map that the code walks with \<open>range\<close> is an association list, in the
  order of the walk; a slice compared with \<open>reflect.DeepEqual\<close> is an option, \<open>None\<close>
  being the nil slice.
\<close>

record PostgresSpec =
  TeamID :: string
  Volume :: Volume
  PgVersion :: string
  Users :: "(string \<times> string list) list"
  AllowedSourceRanges :: "string list option"

record OpConfig =
  SuperUsername :: string
  ReplicationUsername :: string
  PamRoleName :: string

record Service =
  LoadBalancerSourceRanges :: "string list option"

text \<open>
  The cluster object. \<open>passwordsDrawn\<close> counts the calls of \<open>util.RandomPassword\<close> and
  \<open>statusRequests\<close> lists the status patches sent to the control plane, oldest first;
  both are bookkeeping of the model.
\<close>

record ('m, 'p, 'e, 'v) Cluster =
  Service :: "Service option"
  Statefulset :: "('m, 'p, 'e, 'v) StatefulSet option"
  Spec :: PostgresSpec
  Status :: PostgresStatus
  OpConfig :: OpConfig
  InfrastructureRoles :: "(string \<times> PgUser) list"
  pgUsers :: "string \<rightharpoonup> PgUser"
  systemUsers :: "string \<rightharpoonup> PgUser"
  masterLess :: bool
  passwordsDrawn :: nat
  statusRequests :: "PostgresStatus list"

text \<open>
  \<open>setStatus\<close> stores the status in the cluster object and sends the patch; a patch that
  fails is logged only.
\<close>

definition setStatus :: "PostgresStatus \<Rightarrow> ('m, 'p, 'e, 'v) Cluster \<Rightarrow> ('m, 'p, 'e, 'v) Cluster" where
  "setStatus status c = c\<lparr>Status := status, statusRequests := statusRequests c @ [status]\<rparr>"

section \<open>The role model\<close>

text \<open>
  What the role model uses and the sources do not hold: the constants of
  \<open>pkg/util/constants\<close>, \<open>util.RandomPassword\<close> (a function of the number of passwords
  drawn before and of the length), \<open>isValidUsername\<close>, \<open>normalizeUserFlags\<close> (the error
  message or the normalised flags) and \<open>c.getTeamMembers\<close>.
\<close>

record RoleSources =
  PasswordLength :: nat
  SuperuserKeyName :: string
  ReplicationUserKeyName :: string
  RoleFlagLogin :: string
  RoleFlagSuperuser :: string
  RandomPassword :: "nat \<Rightarrow> nat \<Rightarrow> string"
  isValidUsername :: "string \<Rightarrow> bool"
  normalizeUserFlags :: "string list \<Rightarrow> string + string list"
  getTeamMembers :: "string + string list"

definition drawPassword ::
  "RoleSources \<Rightarrow> ('m, 'p, 'e, 'v) Cluster \<Rightarrow> string \<times> ('m, 'p, 'e, 'v) Cluster" where
  "drawPassword w c =
     (RandomPassword w (passwordsDrawn c) (PasswordLength w), c\<lparr>passwordsDrawn := Suc (passwordsDrawn c)\<rparr>)"

definition initSystemUsers :: "RoleSources \<Rightarrow> ('m, 'p, 'e, 'v) Cluster \<Rightarrow> ('m, 'p, 'e, 'v) Cluster" where
  "initSystemUsers w c =
     (case drawPassword w c of (pw1, c) \<Rightarrow>
        let c = c\<lparr>systemUsers := (systemUsers c)(SuperuserKeyName w \<mapsto>
                   \<lparr>pgName = SuperUsername (OpConfig c), Password = pw1, Flags = [], MemberOf = []\<rparr>)\<rparr>
        in case drawPassword w c of (pw2, c) \<Rightarrow>
             c\<lparr>systemUsers := (systemUsers c)(ReplicationUserKeyName w \<mapsto>
                   \<lparr>pgName = ReplicationUsername (OpConfig c), Password = pw2, Flags = [], MemberOf = []\<rparr>)\<rparr>)"

fun initInfrastructureRolesLoop ::
  "RoleSources \<Rightarrow> (string \<times> PgUser) list \<Rightarrow> ('m, 'p, 'e, 'v) Cluster \<Rightarrow>
   error option \<times> ('m, 'p, 'e, 'v) Cluster" where
  "initInfrastructureRolesLoop w [] c = (None, c)"
| "initInfrastructureRolesLoop w ((username, data) # rest) c =
     (if \<not> isValidUsername w username
      then (Some (Error (''invalid username: '' @ quoted username)), c)
      else case normalizeUserFlags w (Flags data) of
             Inl err \<Rightarrow>
               (Some (Error (''invalid flags for user '' @ quoted username @ '': '' @ err)), c)
           | Inr flags \<Rightarrow>
               let data = data\<lparr>Flags := flags\<rparr>
               in initInfrastructureRolesLoop w rest (c\<lparr>pgUsers := (pgUsers c)(username \<mapsto> data)\<rparr>))"

definition initInfrastructureRoles ::
  "RoleSources \<Rightarrow> ('m, 'p, 'e, 'v) Cluster \<Rightarrow> error option \<times> ('m, 'p, 'e, 'v) Cluster" where
  "initInfrastructureRoles w c = initInfrastructureRolesLoop w (InfrastructureRoles c) c"

fun initRobotUsersLoop ::
  "RoleSources \<Rightarrow> (string \<times> string list) list \<Rightarrow> ('m, 'p, 'e, 'v) Cluster \<Rightarrow>
   error option \<times> ('m, 'p, 'e, 'v) Cluster" where
  "initRobotUsersLoop w [] c = (None, c)"
| "initRobotUsersLoop w ((username, userFlags) # rest) c =
     (if \<not> isValidUsername w username
      then (Some (Error (''invalid username: '' @ quoted username)), c)
      else case normalizeUserFlags w userFlags of
             Inl err \<Rightarrow>
               (Some (Error (''invalid flags for user '' @ quoted username @ '': '' @ err)), c)
           | Inr flags \<Rightarrow>
              (case drawPassword w c of (pw, c) \<Rightarrow>
                 initRobotUsersLoop w rest
                   (c\<lparr>pgUsers := (pgUsers c)(username \<mapsto>
                         \<lparr>pgName = username, Password = pw, Flags = flags, MemberOf = []\<rparr>)\<rparr>)))"

definition initRobotUsers ::
  "RoleSources \<Rightarrow> ('m, 'p, 'e, 'v) Cluster \<Rightarrow> error option \<times> ('m, 'p, 'e, 'v) Cluster" where
  "initRobotUsers w c = initRobotUsersLoop w (Users (Spec c)) c"

fun initHumanUsersLoop ::
  "RoleSources \<Rightarrow> string list \<Rightarrow> ('m, 'p, 'e, 'v) Cluster \<Rightarrow> ('m, 'p, 'e, 'v) Cluster" where
  "initHumanUsersLoop w [] c = c"
| "initHumanUsersLoop w (username # rest) c =
     (let flags = [RoleFlagLogin w, RoleFlagSuperuser w];
          memberOf = [PamRoleName (OpConfig c)]
      in initHumanUsersLoop w rest
           (c\<lparr>pgUsers := (pgUsers c)(username \<mapsto>
                 \<lparr>pgName = username, Password = [], Flags = flags, MemberOf = memberOf\<rparr>)\<rparr>))"

definition initHumanUsers ::
  "RoleSources \<Rightarrow> ('m, 'p, 'e, 'v) Cluster \<Rightarrow> error option \<times> ('m, 'p, 'e, 'v) Cluster" where
  "initHumanUsers w c =
     (case getTeamMembers w of
        Inl err \<Rightarrow> (Some (Error (''could not get list of team members: '' @ err)), c)
      | Inr teamMembers \<Rightarrow> (None, initHumanUsersLoop w teamMembers c))"

text \<open>
  \<open>fmt.Errorf(message + "%v", err)\<close> on the error of a callee; a panic is not an error
  value and passes unchanged.
\<close>

fun Errorf :: "string \<Rightarrow> error \<Rightarrow> error" where
  "Errorf message (Error msg) = Error (message @ msg)"
| "Errorf message (Panic p) = Panic p"

definition initUsers ::
  "RoleSources \<Rightarrow> ('m, 'p, 'e, 'v) Cluster \<Rightarrow> error option \<times> ('m, 'p, 'e, 'v) Cluster" where
  "initUsers w c =
     (let c = initSystemUsers w c in
      case initInfrastructureRoles w c of
        (Some err, c) \<Rightarrow> (Some (Errorf ''could not init infrastructure roles: '' err), c)
      | (None, c) \<Rightarrow>
     (case initRobotUsers w c of
        (Some err, c) \<Rightarrow> (Some (Errorf ''could not init robot users: '' err), c)
      | (None, c) \<Rightarrow>
     (case initHumanUsers w c of
        (Some err, c) \<Rightarrow> (Some (Errorf ''could not init human users: '' err), c)
      | (None, c) \<Rightarrow> (None, c))))"

section \<open>The lifecycle driver\<close>

text \<open>
  The steps of \<open>Create\<close> and \<open>Update\<close> that the sources do not hold are parameters giving
  the error of the step (\<open>None\<close> is nil); the objects that the generators return are
  parameters too. What these steps store in the cluster object is not modelled.
\<close>

record ('m, 'p, 'e, 'v) Collaborators =
  roleSources :: RoleSources
  volumeClients :: VolumeClients
  createEndpoint :: "string option"
  createService :: "string option"
  applySecrets :: "string option"
  createStatefulSet :: "string option"
  waitStatefulsetPodsReady :: "string option"
  databaseAccessDisabled :: bool
  initDbConn :: "string option"
  createUsers :: "string option"
  ListResources :: "string option"
  genService :: "string list option \<Rightarrow> Service"
  updateService :: "Service \<Rightarrow> string option"
  genStatefulSet :: "PostgresSpec \<Rightarrow> string + ('m, 'p, 'e, 'v) StatefulSet"
  updateStatefulSet :: "('m, 'p, 'e, 'v) StatefulSet \<Rightarrow> string option"
  replaceStatefulSet :: "('m, 'p, 'e, 'v) StatefulSet \<Rightarrow> string option"
  recreatePods :: "string option"

text \<open>
  The body of \<open>Create\<close> up to its \<open>return\<close>: the value returned, the value that the
  function-level variable \<open>err\<close> holds at that moment, and the cluster. The two differ
  where the code returns a fresh \<open>fmt.Errorf\<close> value, where \<open>if err := c.initDbConn()\<close>
  declares a variable of its own inside the \<open>if\<close>, and where the error of
  \<open>ListResources\<close> is logged and \<open>nil\<close> is returned.
\<close>

definition Create_ListResources ::
  "('m, 'p, 'e, 'v) Collaborators \<Rightarrow> ('m, 'p, 'e, 'v) Cluster \<Rightarrow>
   error option \<times> error option \<times> ('m, 'p, 'e, 'v) Cluster" where
  "Create_ListResources w c = (None, map_option Error (ListResources w), c)"

definition Create_body ::
  "('m, 'p, 'e, 'v) Collaborators \<Rightarrow> ('m, 'p, 'e, 'v) Cluster \<Rightarrow>
   error option \<times> error option \<times> ('m, 'p, 'e, 'v) Cluster" where
  "Create_body w c =
     (let c = setStatus ClusterStatusCreating c in
      case createEndpoint w of
        Some err \<Rightarrow> (Some (Error (''could not create endpoint: '' @ err)), Some (Error err), c)
      | None \<Rightarrow>
     (case createService w of
        Some err \<Rightarrow> (Some (Error (''could not create service: '' @ err)), Some (Error err), c)
      | None \<Rightarrow>
     (case initUsers (roleSources w) c of
        (Some err, c) \<Rightarrow> (Some err, Some err, c)
      | (None, c) \<Rightarrow>
     (case applySecrets w of
        Some err \<Rightarrow> (Some (Error (''could not create secrets: '' @ err)), Some (Error err), c)
      | None \<Rightarrow>
     (case createStatefulSet w of
        Some err \<Rightarrow> (Some (Error (''could not create statefulset: '' @ err)), Some (Error err), c)
      | None \<Rightarrow>
     (case waitStatefulsetPodsReady w of
        Some err \<Rightarrow> (Some (Error err), Some (Error err), c)
      | None \<Rightarrow>
          if \<not> (masterLess c \<or> databaseAccessDisabled w) then
            (case initDbConn w of
               Some err \<Rightarrow> (Some (Error (''could not init db connection: '' @ err)), None, c)
             | None \<Rightarrow>
            (case createUsers w of
               Some err \<Rightarrow> (Some (Error (''could not create users: '' @ err)), Some (Error err), c)
             | None \<Rightarrow> Create_ListResources w c))
          else Create_ListResources w c))))))"

text \<open>
  \<open>Create\<close>: the body, then the deferred function, which reads the variable \<open>err\<close>.
\<close>

definition Create ::
  "('m, 'p, 'e, 'v) Collaborators \<Rightarrow> ('m, 'p, 'e, 'v) Cluster \<Rightarrow>
   error option \<times> ('m, 'p, 'e, 'v) Cluster" where
  "Create w c =
     (case Create_body w c of
        (ret, err, c) \<Rightarrow>
          (ret, if err = None then setStatus ClusterStatusRunning c
                else setStatus ClusterStatusAddFailed c))"

definition sameServiceWith ::
  "('m, 'p, 'e, 'v) Cluster \<Rightarrow> Service \<Rightarrow> panic + bool \<times> string" where
  "sameServiceWith c service =
     (case Service c of
        None \<Rightarrow> Inl NilPointerDereference
      | Some cur \<Rightarrow>
          if LoadBalancerSourceRanges cur \<noteq> LoadBalancerSourceRanges service
          then Inr (False, ''new service's LoadBalancerSourceRange doesn't match the current one'')
          else Inr (True, []))"

definition sameVolumeWith :: "('m, 'p, 'e, 'v) Cluster \<Rightarrow> Volume \<Rightarrow> bool \<times> string" where
  "sameVolumeWith c volume =
     (if Volume (Spec c) \<noteq> volume
      then (False, ''new volume's specification doesn't match the current one'')
      else (True, []))"

definition Update ::
  "('m, 'p, 'e, 'v) Collaborators \<Rightarrow> ('m, 'p, 'e, 'v) Cluster \<Rightarrow> PostgresSpec \<Rightarrow>
   error option \<times> ('m, 'p, 'e, 'v) Cluster" where
  "Update w c newSpec =
     (let c = setStatus ClusterStatusUpdating c;
          newService = genService w (AllowedSourceRanges newSpec)
      in case sameServiceWith c newService of
           Inl p \<Rightarrow> (Some (Panic p), c)
         | Inr (sameService, reason) \<Rightarrow>
        (case (if \<not> sameService then updateService w newService else None) of
           Some err \<Rightarrow>
             (Some (Error (''could not update service: '' @ err)), setStatus ClusterStatusUpdateFailed c)
         | None \<Rightarrow>
        (case (if \<not> fst (sameVolumeWith c (Volume newSpec))
               then fst (updateVolumes (volumeClients w) (Volume newSpec)) else None) of
           Some err \<Rightarrow> (Some (Errorf ''Could not update volumes: '' err), c)
         | None \<Rightarrow>
        (case genStatefulSet w newSpec of
           Inl err \<Rightarrow> (Some (Error (''could not generate statefulset: '' @ err)), c)
         | Inr newStatefulSet \<Rightarrow>
        (case (case Statefulset c of
                 None \<Rightarrow> Inl NilPointerDereference
               | Some cur \<Rightarrow> compareStatefulSetWith cur newStatefulSet) of
           Inl p \<Rightarrow> (Some (Panic p), c)
         | Inr cmp \<Rightarrow>
        (case (if \<not> match cmp then
                 (if \<not> replace cmp
                  then map_option (\<lambda>err. ''could not upate statefulset: '' @ err)
                         (updateStatefulSet w newStatefulSet)
                  else map_option (\<lambda>err. ''could not replace statefulset: '' @ err)
                         (replaceStatefulSet w newStatefulSet))
               else None) of
           Some msg \<Rightarrow> (Some (Error msg), setStatus ClusterStatusUpdateFailed c)
         | None \<Rightarrow>
        (case (if rollingUpdate cmp then recreatePods w else None) of
           Some err \<Rightarrow>
             (Some (Error (''could not recreate pods: '' @ err)), setStatus ClusterStatusUpdateFailed c)
         | None \<Rightarrow> (None, setStatus ClusterStatusRunning c))))))))"

section \<open>Example objects\<close>

text \<open>
  A workload set with one container, for the concrete runs below. Labels, annotations and
  the environment are association lists, the ports are port numbers and the specification
  of a volume claim is its storage request.
\<close>

definition exampleContainer :: "(nat list, (string \<times> string) list) Container" where
  "exampleContainer =
     \<lparr>Image = ''spilo:1.0'', Ports = [5432, 8008],
      Resources = \<lparr>Limits = [(''cpu'', 1)], Requests = []\<rparr>,
      Env = [(''PGROOT'', ''/home/postgres/pgroot'')]\<rparr>"

definition exampleStatefulSet ::
  "((string \<times> string) list, nat list, (string \<times> string) list, string) StatefulSet" where
  "exampleStatefulSet =
     \<lparr>Replicas = Some 2,
      Containers = [exampleContainer],
      ServiceAccountName = ''operator'',
      TerminationGracePeriodSeconds = Some 30,
      TemplateLabels = [(''application'', ''spilo'')],
      TemplateAnnotations = [],
      VolumeClaimTemplates = [\<lparr>claimName = ''pgdata'', claimAnnotations = [], claimSpec = ''10Gi''\<rparr>]\<rparr>"

text \<open>
  \<open>New\<close>: a cluster object with empty role maps and no resources loaded. The operator
  configuration and the infrastructure roles come with \<open>cfg\<close>, the specification with
  \<open>pgSpec\<close>.
\<close>

definition New :: "OpConfig \<Rightarrow> (string \<times> PgUser) list \<Rightarrow> PostgresSpec \<Rightarrow> ('m, 'p, 'e, 'v) Cluster" where
  "New opConfig infrastructureRoles pgSpec =
     \<lparr>Service = None, Statefulset = None, Spec = pgSpec, Status = ClusterStatusUnknown,
      OpConfig = opConfig, InfrastructureRoles = infrastructureRoles,
      pgUsers = Map.empty, systemUsers = Map.empty, masterLess = False,
      passwordsDrawn = 0, statusRequests = []\<rparr>"

text \<open>
  Role sources for the concrete runs: every non-empty name is valid, flags are kept as they
  are, the passwords drawn are \<open>alpha\<close>, \<open>bravo\<close> and then \<open>charlie\<close>, and the team
  has no member.
\<close>

definition exampleRoleSources :: RoleSources where
  "exampleRoleSources =
     \<lparr>PasswordLength = 64, SuperuserKeyName = ''superuser'', ReplicationUserKeyName = ''replication'',
      RoleFlagLogin = ''LOGIN'', RoleFlagSuperuser = ''SUPERUSER'',
      RandomPassword = (\<lambda>n len. if n = 0 then ''alpha'' else if n = 1 then ''bravo'' else ''charlie''),
      isValidUsername = (\<lambda>username. username \<noteq> []),
      normalizeUserFlags = (\<lambda>flags. Inr flags),
      getTeamMembers = Inr []\<rparr>"

definition exampleOpConfig :: OpConfig where
  "exampleOpConfig = \<lparr>SuperUsername = ''postgres'', ReplicationUsername = ''standby'', PamRoleName = ''zalandos''\<rparr>"

definition exampleSpec :: PostgresSpec where
  "exampleSpec =
     \<lparr>TeamID = ''acid'', Volume = \<lparr>Size = ''10Gi'', StorageClass = ''gp2''\<rparr>, PgVersion = ''9.6'',
      Users = [(''app'', [''LOGIN''])], AllowedSourceRanges = Some [''10.0.0.0/8'']\<rparr>"

definition exampleInfrastructureRole :: PgUser where
  "exampleInfrastructureRole =
     \<lparr>pgName = ''app'', Password = ''secret'', Flags = [''SUPERUSER''], MemberOf = []\<rparr>"

definition exampleCluster ::
  "((string \<times> string) list, nat list, (string \<times> string) list, string) Cluster" where
  "exampleCluster = New exampleOpConfig [(''app'', exampleInfrastructureRole)] exampleSpec"

text \<open>
  Volumes and clients for the concrete runs: one volume of 10 GiB and one of 20 GiB, every
  call succeeding, the remote command printing what \<open>resize2fs\<close> prints when it grows a
  mounted filesystem.
\<close>

definition resize2fsOutput :: string where
  "resize2fsOutput =
     ''Filesystem at /dev/xvdb is mounted on /home/postgres/pgdata; on-line resizing required''
     @ [CHR 0x0A] @ ''The filesystem on /dev/xvdb is now 5242880 (4k) blocks long.'' @ [CHR 0x0A]"

text \<open>The same output with an exclamation mark in the place of the final period.\<close>

definition resize2fsOutputExclaimed :: string where
  "resize2fsOutputExclaimed =
     ''Filesystem at /dev/xvdb is mounted on /home/postgres/pgdata; on-line resizing required''
     @ [CHR 0x0A] @ ''The filesystem on /dev/xvdb is now 5242880 (4k) blocks long!'' @ [CHR 0x0A]"

definition examplePV1 :: PersistentVolume where
  "examplePV1 =
     \<lparr>pvName = ''pv-0'', Capacity = Some [(''storage'', 10737418240)],
      ClaimRef = Some \<lparr>refNamespace = ''default'', refName = ''pgdata-acid-test-0''\<rparr>,
      AWSElasticBlockStore = Some ''aws://eu-central-1b/vol-00f93d4827217c629''\<rparr>"

definition examplePV2 :: PersistentVolume where
  "examplePV2 =
     \<lparr>pvName = ''pv-1'', Capacity = Some [(''storage'', 21474836480)],
      ClaimRef = Some \<lparr>refNamespace = ''default'', refName = ''pgdata-acid-test-1''\<rparr>,
      AWSElasticBlockStore = Some ''aws://eu-central-1b/vol-0a1b2c3d4e5f60718''\<rparr>"

definition exampleVolumeClients :: VolumeClients where
  "exampleVolumeClients =
     \<lparr>ParseQuantity = (\<lambda>s. if s = ''20Gi'' then Inr 21474836480
                           else if s = ''10Gi'' then Inr 10737418240
                           else Inl ''quantities must match the regular expression''),
      listPersistentVolumes = Inr [examplePV1, examplePV2],
      ConnectToEC2 = None,
      ResizeVolume = (\<lambda>awsVolumeId newSize. None),
      ExecCommand = (\<lambda>podName. (resize2fsOutput, None)),
      PersistentVolumesUpdate = (\<lambda>pv. None),
      DataVolumeName = ''pgdata''\<rparr>"

definition examplePod :: NamespacedName where
  "examplePod = \<lparr>Namespace = ''default'', Name = ''acid-test-0''\<rparr>"

text \<open>
  Collaborators for the concrete runs: every step succeeds, the generated service carries
  the allowed source ranges and the generated workload set is the example above. The
  running cluster is the example cluster with its service and workload set loaded.
\<close>

definition exampleCollaborators ::
  "((string \<times> string) list, nat list, (string \<times> string) list, string) Collaborators" where
  "exampleCollaborators =
     \<lparr>roleSources = exampleRoleSources, volumeClients = exampleVolumeClients,
      createEndpoint = None, createService = None, applySecrets = None,
      createStatefulSet = None, waitStatefulsetPodsReady = None,
      databaseAccessDisabled = False, initDbConn = None, createUsers = None,
      ListResources = None,
      genService = (\<lambda>allowedSourceRanges. \<lparr>LoadBalancerSourceRanges = allowedSourceRanges\<rparr>),
      updateService = (\<lambda>service. None),
      genStatefulSet = (\<lambda>spec. Inr exampleStatefulSet),
      updateStatefulSet = (\<lambda>statefulSet. None),
      replaceStatefulSet = (\<lambda>statefulSet. None),
      recreatePods = None\<rparr>"

definition exampleRunningCluster ::
  "((string \<times> string) list, nat list, (string \<times> string) list, string) Cluster" where
  "exampleRunningCluster =
     exampleCluster\<lparr>Service := Some \<lparr>LoadBalancerSourceRanges = Some [''10.0.0.0/8'']\<rparr>,
                    Statefulset := Some exampleStatefulSet,
                    Status := ClusterStatusRunning\<rparr>"

section \<open>Properties of the differ\<close>

text \<open>
  Claim C10. Two non-nil resource-requirement sets whose \<open>Requests\<close> maps are both empty
  compare equal whatever their \<open>Limits\<close> maps hold: with an empty \<open>Requests\<close> map on the
  other side, \<open>compareResoucesAssumeFirstNotNil\<close> answers from the length of the first
  side's \<open>Requests\<close> alone and reaches neither loop, so the limits are never compared.
\<close>

theorem compareResources_no_requests_ignores_limits:
  assumes "Requests a = []" and "Requests b = []"
  shows "compareResources (Some (a\<lparr>Limits := la\<rparr>)) (Some (b\<lparr>Limits := lb\<rparr>))"
  using assms by (simp add: compareResources_def compareResoucesAssumeFirstNotNil_def)

theorem compareResources_no_requests_ignores_limits_witness:
  "Requests \<lparr>Limits = [], Requests = []\<rparr> = []
   \<and> [(''cpu'', 1 :: rat)] \<noteq> [(''cpu'', 2)]
   \<and> compareResources (Some \<lparr>Limits = [(''cpu'', 1)], Requests = []\<rparr>)
                       (Some \<lparr>Limits = [(''cpu'', 2)], Requests = []\<rparr>)"
  using compareResources_no_requests_ignores_limits
    [of "\<lparr>Limits = [], Requests = []\<rparr>" "\<lparr>Limits = [], Requests = []\<rparr>"
        "[(''cpu'', 1)]" "[(''cpu'', 2)]"]
  by simp


subsection \<open>What the checks leave untouched\<close>

lemma needs_match [simp]:
  "match (needsReplace r st) = match st"
  "match (needsRollUpdate r st) = match st"
  "match (needsBoth r st) = match st"
  by (simp_all add: needsReplace_def needsRollUpdate_def needsBoth_def)

lemma compareVolumeClaimTemplates_match:
  "compareVolumeClaimTemplates i cur new st = Inr st' \<Longrightarrow> match st' = match st"
  by (induction i cur new st rule: compareVolumeClaimTemplates.induct)
     (auto simp: Let_def split: if_splits)

lemma compareTemplate_match:
  "compareTemplate c s st = Inr st' \<Longrightarrow> match st' = match st"
  by (auto simp: compareTemplate_def Let_def split: option.splits if_splits)

lemma compareContainers_match:
  "match (compareContainers c1 c2 st) = match st"
  by (simp add: compareContainers_def Let_def)

lemma compareCounts_match: "match (compareCounts r1 r2 c s) = (r1 = r2)"
  by (simp add: compareCounts_def Let_def)

lemma setMatch_match: "match (setMatch st) = (match st \<and> \<not> (rollingUpdate st \<or> replace st))"
  by (simp add: setMatch_def)

lemma setMatch_flags [simp]:
  "rollingUpdate (setMatch st) = rollingUpdate st" "replace (setMatch st) = replace st"
  by (simp_all add: setMatch_def)

lemma compareVolumeClaimTemplates_same:
  "compareVolumeClaimTemplates i xs xs st = Inr st"
  by (induction xs arbitrary: i) (simp_all add: Let_def)

lemma compareContainers_replace: "replace (compareContainers c1 c2 st) = replace st"
  by (simp add: compareContainers_def needsRollUpdate_def Let_def)

lemma compareContainers_rollingUpdate:
  "rollingUpdate (compareContainers c1 c2 st) =
     (rollingUpdate st \<or> Image c1 \<noteq> Image c2 \<or> Ports c1 \<noteq> Ports c2
      \<or> \<not> compareResources (Some (Resources c1)) (Some (Resources c2)) \<or> Env c1 \<noteq> Env c2)"
  by (simp add: compareContainers_def needsRollUpdate_def Let_def)

lemmas differ_defs =
  compareStatefulSetWith_def compareCounts_def compareTemplate_def compareContainers_def
  setMatch_def compareResources_def compareResoucesAssumeFirstNotNil_def
  exampleStatefulSet_def exampleContainer_def Let_def

subsection \<open>A live object without containers\<close>

text \<open>
  Claim C5. When the live workload set has no container, the differ returns the zero
  result: \<open>match\<close>, \<open>needsReplace\<close> and \<open>needsRollingUpdate\<close> are false and there is no
  reason, whatever else differs (the replica counts and the container counts, which are
  looked at before, included). The two replica counts are read through their pointers
  first, so both are set.
\<close>

theorem zero_containers_empty_result:
  assumes "Containers c = []" and "Replicas c = Some r1" and "Replicas statefulSet = Some r2"
  shows "compareStatefulSetWith c statefulSet =
           Inr \<lparr>match = False, replace = False, rollingUpdate = False, reasons = []\<rparr>"
  using assms by (simp add: compareStatefulSetWith_def emptyResult_def Let_def)

theorem zero_containers_empty_result_witness:
  "Containers (exampleStatefulSet\<lparr>Containers := [], Replicas := Some 5\<rparr>) = []
   \<and> compareStatefulSetWith (exampleStatefulSet\<lparr>Containers := [], Replicas := Some 5\<rparr>) exampleStatefulSet
       = Inr \<lparr>match = False, replace = False, rollingUpdate = False, reasons = []\<rparr>"
  using zero_containers_empty_result
    [of "exampleStatefulSet\<lparr>Containers := [], Replicas := Some 5\<rparr>" 5 exampleStatefulSet 2]
  by (simp add: exampleStatefulSet_def)

subsection \<open>The match flag\<close>

text \<open>
  Claim C4, as the claim states it, fails: two objects that differ in the replica count only
  give \<open>match = False\<close> with both flags false, where the formula
  \<open>\<not> (needsRollingUpdate \<or> needsReplace)\<close> gives true.
\<close>

theorem replicas_only_counterexample:
  "compareStatefulSetWith exampleStatefulSet (exampleStatefulSet\<lparr>Replicas := Some 3\<rparr>)
     = Inr \<lparr>match = False, replace = False, rollingUpdate = False,
            reasons = [''new statefulset's number of replicas doesn't match the current one'']\<rparr>
   \<and> match (projr (compareStatefulSetWith exampleStatefulSet (exampleStatefulSet\<lparr>Replicas := Some 3\<rparr>)))
       \<noteq> (\<not> (rollingUpdate (projr (compareStatefulSetWith exampleStatefulSet (exampleStatefulSet\<lparr>Replicas := Some 3\<rparr>)))
              \<or> replace (projr (compareStatefulSetWith exampleStatefulSet (exampleStatefulSet\<lparr>Replicas := Some 3\<rparr>)))))"
  by (simp add: differ_defs)

text \<open>
  Claim C4, amended. Whenever the differ returns a result for a live object with at least
  one container, the match flag holds exactly when the replica counts are equal and neither
  \<open>needsRollingUpdate\<close> nor \<open>needsReplace\<close> is set.
\<close>

theorem match_is_same_replicas_and_no_flag:
  assumes "compareStatefulSetWith c statefulSet = Inr res" and "Containers c \<noteq> []"
  shows "match res = (Replicas c = Replicas statefulSet \<and> \<not> (rollingUpdate res \<or> replace res))"
proof -
  obtain r1 r2 where r: "Replicas c = Some r1" "Replicas statefulSet = Some r2"
    using assms(1) by (auto simp: compareStatefulSetWith_def split: option.splits)
  have "\<exists>st3 st4.
          compareTemplate c statefulSet (compareCounts r1 r2 c statefulSet) = Inr st3 \<and>
          compareVolumeClaimTemplates 0 (VolumeClaimTemplates c) (VolumeClaimTemplates statefulSet) st3 = Inr st4 \<and>
          res = setMatch (compareContainers (hd (Containers c)) (hd (Containers statefulSet)) st4)"
    using assms r unfolding compareStatefulSetWith_def Let_def
    by (auto split: sum.splits list.splits)
  then obtain st3 st4 where
    s3: "compareTemplate c statefulSet (compareCounts r1 r2 c statefulSet) = Inr st3" and
    s4: "compareVolumeClaimTemplates 0 (VolumeClaimTemplates c) (VolumeClaimTemplates statefulSet) st3 = Inr st4" and
    res: "res = setMatch (compareContainers (hd (Containers c)) (hd (Containers statefulSet)) st4)"
    by blast
  have "match (compareContainers (hd (Containers c)) (hd (Containers statefulSet)) st4) = (r1 = r2)"
    using compareTemplate_match[OF s3] compareVolumeClaimTemplates_match[OF s4]
    by (simp add: compareContainers_match compareCounts_match)
  then show ?thesis using r res by (simp add: setMatch_match)
qed

theorem match_is_same_replicas_and_no_flag_witness:
  "Containers exampleStatefulSet \<noteq> []
   \<and> compareStatefulSetWith exampleStatefulSet
        (exampleStatefulSet\<lparr>Containers := [exampleContainer\<lparr>Image := ''spilo:2.0''\<rparr>]\<rparr>)
       = Inr \<lparr>match = False, replace = False, rollingUpdate = True,
              reasons = [''new statefulset's container image doesn't match the current one'']\<rparr>
   \<and> Replicas exampleStatefulSet
       = Replicas (exampleStatefulSet\<lparr>Containers := [exampleContainer\<lparr>Image := ''spilo:2.0''\<rparr>]\<rparr>)"
  using match_is_same_replicas_and_no_flag [of exampleStatefulSet
      "exampleStatefulSet\<lparr>Containers := [exampleContainer\<lparr>Image := ''spilo:2.0''\<rparr>]\<rparr>"
      "\<lparr>match = False, replace = False, rollingUpdate = True,
              reasons = [''new statefulset's container image doesn't match the current one'']\<rparr>"]
  by (simp add: differ_defs needsRollUpdate_def)

subsection \<open>What the comparison of resources detects\<close>

lemma Cmp_zero_iff: "Cmp v w = 0 \<longleftrightarrow> v = w"
  by (simp add: Cmp_def)

lemma rangeCmp_iff:
  "rangeCmp xs ys \<longleftrightarrow> (\<forall>(k, v) \<in> set xs. v = index_ResourceList ys k)"
  by (induction xs ys rule: rangeCmp.induct) (auto simp: Cmp_zero_iff)

lemma index_differs_detected:
  assumes "index_ResourceList xs k \<noteq> index_ResourceList ys k"
  shows "\<not> rangeCmp xs ys \<or> \<not> rangeCmp ys xs"
proof (cases "map_of xs k")
  case None
  then have "index_ResourceList xs k = 0" by (simp add: index_ResourceList_def)
  then obtain w where w: "map_of ys k = Some w" "w \<noteq> index_ResourceList xs k"
    using assms by (cases "map_of ys k") (auto simp: index_ResourceList_def)
  then have "(k, w) \<in> set ys" by (simp add: map_of_SomeD)
  then have "\<not> rangeCmp ys xs" using w unfolding rangeCmp_iff by blast
  then show ?thesis by simp
next
  case (Some v)
  then have "(k, v) \<in> set xs" by (simp add: map_of_SomeD)
  moreover have "v \<noteq> index_ResourceList ys k"
    using assms Some by (simp add: index_ResourceList_def)
  ultimately have "\<not> rangeCmp xs ys" unfolding rangeCmp_iff by blast
  then show ?thesis by simp
qed

lemma compareResources_Some_iff:
  "compareResources (Some a) (Some b) \<longleftrightarrow>
     (Requests a = [] \<and> Requests b = [])
     \<or> (Requests a \<noteq> [] \<and> Requests b \<noteq> []
        \<and> rangeCmp (Requests a) (Requests b) \<and> rangeCmp (Limits a) (Limits b)
        \<and> rangeCmp (Requests b) (Requests a) \<and> rangeCmp (Limits b) (Limits a))"
  by (auto simp: compareResources_def compareResoucesAssumeFirstNotNil_def)

lemma resources_change_detected:
  assumes "(\<exists>k. index_ResourceList (Requests a) k \<noteq> index_ResourceList (Requests b) k)
           \<or> (Requests a = []) \<noteq> (Requests b = [])
           \<or> (Requests a \<noteq> [] \<and> Requests b \<noteq> []
              \<and> (\<exists>k. index_ResourceList (Limits a) k \<noteq> index_ResourceList (Limits b) k))"
  shows "\<not> compareResources (Some a) (Some b)"
proof
  assume eq: "compareResources (Some a) (Some b)"
  then consider
      (none) "Requests a = []" "Requests b = []"
    | (both) "Requests a \<noteq> []" "Requests b \<noteq> []"
        "rangeCmp (Requests a) (Requests b)" "rangeCmp (Limits a) (Limits b)"
        "rangeCmp (Requests b) (Requests a)" "rangeCmp (Limits b) (Limits a)"
    unfolding compareResources_Some_iff by blast
  then show False
  proof cases
    case none
    then have "index_ResourceList (Requests a) k = index_ResourceList (Requests b) k" for k
      by simp
    then show False using assms none by simp
  next
    case both
    have "index_ResourceList (Requests a) k = index_ResourceList (Requests b) k" for k
      using index_differs_detected [of "Requests a" k "Requests b"] both by blast
    moreover have "index_ResourceList (Limits a) k = index_ResourceList (Limits b) k" for k
      using index_differs_detected [of "Limits a" k "Limits b"] both by blast
    ultimately show False using assms both by simp
  qed
qed

subsection \<open>Changes of the first container\<close>

text \<open>
  Claim C8, as the claim states it, fails: two objects that are identical except for the
  resource limits of the first container, neither container requesting anything, give
  \<open>needsRollingUpdate = False\<close>.
\<close>

theorem limits_only_counterexample:
  "Resources exampleContainer
     \<noteq> Resources (exampleContainer\<lparr>Resources := \<lparr>Limits = [(''cpu'', 2)], Requests = []\<rparr>\<rparr>)
   \<and> compareStatefulSetWith exampleStatefulSet
        (exampleStatefulSet\<lparr>Containers :=
           [exampleContainer\<lparr>Resources := \<lparr>Limits = [(''cpu'', 2)], Requests = []\<rparr>\<rparr>]\<rparr>)
       = Inr \<lparr>match = True, replace = False, rollingUpdate = False, reasons = []\<rparr>"
  by (simp add: differ_defs)

text \<open>
  Claim C8, amended. Take two objects that are identical except for the first container, the
  replica count and the termination grace period of the live object being set. If the
  image, the ports or the environment differ, or the quantity requested for some resource
  name differs (a name without an entry counting as zero), or one container has requests
  and the other has none, or both have requests and the limit for some resource name
  differs, then the differ returns a result with \<open>needsRollingUpdate = True\<close> and
  \<open>needsReplace = False\<close>. A pair that differs in the image only is one of them.
\<close>

theorem first_container_change_rolls:
  assumes "Containers c = container1 # others"
      and "statefulSet = c\<lparr>Containers := container2 # others\<rparr>"
      and "Replicas c = Some r" and "TerminationGracePeriodSeconds c = Some t"
      and "Image container1 \<noteq> Image container2 \<or> Ports container1 \<noteq> Ports container2
           \<or> Env container1 \<noteq> Env container2
           \<or> (\<exists>k. index_ResourceList (Requests (Resources container1)) k
                    \<noteq> index_ResourceList (Requests (Resources container2)) k)
           \<or> (Requests (Resources container1) = []) \<noteq> (Requests (Resources container2) = [])
           \<or> (Requests (Resources container1) \<noteq> [] \<and> Requests (Resources container2) \<noteq> []
              \<and> (\<exists>k. index_ResourceList (Limits (Resources container1)) k
                       \<noteq> index_ResourceList (Limits (Resources container2)) k))"
  shows "\<exists>res. compareStatefulSetWith c statefulSet = Inr res \<and> rollingUpdate res \<and> \<not> replace res"
proof -
  define st0 :: compareStatefulsetResult where
    "st0 = \<lparr>match = True, replace = False, rollingUpdate = False, reasons = []\<rparr>"
  have c0: "compareCounts r r c statefulSet = st0"
    using assms(1,2) by (simp add: compareCounts_def st0_def)
  have t0: "compareTemplate c statefulSet st0 = Inr st0"
    using assms(2,4) by (simp add: compareTemplate_def)
  have v0: "compareVolumeClaimTemplates 0 (VolumeClaimTemplates c) (VolumeClaimTemplates statefulSet) st0 = Inr st0"
    using assms(2) by (simp add: compareVolumeClaimTemplates_same)
  have res: "compareStatefulSetWith c statefulSet = Inr (setMatch (compareContainers container1 container2 st0))"
    using assms(1,2,3) c0 t0 v0 by (simp add: compareStatefulSetWith_def)
  have "Image container1 \<noteq> Image container2 \<or> Ports container1 \<noteq> Ports container2
        \<or> Env container1 \<noteq> Env container2
        \<or> \<not> compareResources (Some (Resources container1)) (Some (Resources container2))"
    using assms(5) resources_change_detected [of "Resources container1" "Resources container2"]
    by blast
  then have "rollingUpdate (compareContainers container1 container2 st0)"
    by (auto simp: compareContainers_rollingUpdate)
  moreover have "\<not> replace (compareContainers container1 container2 st0)"
    by (simp add: compareContainers_replace st0_def)
  ultimately show ?thesis using res by simp
qed

theorem first_container_change_rolls_witness:
  "Image exampleContainer \<noteq> Image (exampleContainer\<lparr>Image := ''spilo:2.0''\<rparr>)
   \<and> (\<exists>res. compareStatefulSetWith exampleStatefulSet
                (exampleStatefulSet\<lparr>Containers := [exampleContainer\<lparr>Image := ''spilo:2.0''\<rparr>]\<rparr>) = Inr res
              \<and> rollingUpdate res \<and> \<not> replace res)
   \<and> index_ResourceList (Requests (Resources exampleContainer)) ''cpu''
       \<noteq> index_ResourceList
            (Requests (Resources (exampleContainer\<lparr>Resources := \<lparr>Limits = [(''cpu'', 1)], Requests = [(''cpu'', 1 / 2)]\<rparr>\<rparr>)))
            ''cpu''
   \<and> (\<exists>res. compareStatefulSetWith exampleStatefulSet
                (exampleStatefulSet\<lparr>Containers :=
                   [exampleContainer\<lparr>Resources := \<lparr>Limits = [(''cpu'', 1)], Requests = [(''cpu'', 1 / 2)]\<rparr>\<rparr>]\<rparr>) = Inr res
              \<and> rollingUpdate res \<and> \<not> replace res)"
  using first_container_change_rolls [of exampleStatefulSet exampleContainer "[]"
      "exampleStatefulSet\<lparr>Containers := [exampleContainer\<lparr>Image := ''spilo:2.0''\<rparr>]\<rparr>"
      "exampleContainer\<lparr>Image := ''spilo:2.0''\<rparr>" 2 30]
    first_container_change_rolls [of exampleStatefulSet exampleContainer "[]"
      "exampleStatefulSet\<lparr>Containers :=
         [exampleContainer\<lparr>Resources := \<lparr>Limits = [(''cpu'', 1)], Requests = [(''cpu'', 1 / 2)]\<rparr>\<rparr>]\<rparr>"
      "exampleContainer\<lparr>Resources := \<lparr>Limits = [(''cpu'', 1)], Requests = [(''cpu'', 1 / 2)]\<rparr>\<rparr>" 2 30]
  by (simp add: exampleStatefulSet_def exampleContainer_def index_ResourceList_def)

section \<open>Properties of the role model\<close>

lemma initHumanUsersLoop_other:
  "username \<notin> set members \<Longrightarrow> pgUsers (initHumanUsersLoop w members c) username = pgUsers c username"
  by (induction members arbitrary: c) (simp_all add: Let_def)

lemma initSystemUsers_fields:
  "pgUsers (initSystemUsers w c) = pgUsers c"
  "InfrastructureRoles (initSystemUsers w c) = InfrastructureRoles c"
  "Spec (initSystemUsers w c) = Spec c"
  "passwordsDrawn (initSystemUsers w c) = passwordsDrawn c + 2"
  by (simp_all add: initSystemUsers_def drawPassword_def Let_def)

lemmas role_defs =
  initUsers_def initInfrastructureRoles_def initRobotUsers_def initHumanUsers_def
  initSystemUsers_def drawPassword_def exampleCluster_def New_def exampleRoleSources_def
  exampleSpec_def exampleInfrastructureRole_def exampleOpConfig_def quoted_def Let_def

text \<open>
  Claim C3, as the claim states it, fails: with the infrastructure role \<open>app\<close> (password
  \<open>secret\<close>, flag \<open>SUPERUSER\<close>) and the robot role \<open>app\<close> (flag \<open>LOGIN\<close>) the build
  succeeds, and the entry for \<open>app\<close> is the robot role with its generated password, not
  the infrastructure role.
\<close>

theorem infrastructure_role_overwritten_counterexample:
  "fst (initUsers exampleRoleSources exampleCluster) = None
   \<and> pgUsers (snd (initUsers exampleRoleSources exampleCluster)) ''app''
       = Some \<lparr>pgName = ''app'', Password = ''charlie'', Flags = [''LOGIN''], MemberOf = []\<rparr>
   \<and> pgUsers (snd (initUsers exampleRoleSources exampleCluster)) ''app'' \<noteq> Some exampleInfrastructureRole"
  by (simp add: role_defs)

text \<open>
  Claim C3, amended. Given one infrastructure role and one robot role with the same valid
  username (the flags of both normalise, the team lookup succeeds and the team has no member
  of that name), the build succeeds and the entry for the username is the robot role: the
  username, a freshly drawn password and the normalised flags of the robot definition.
  Robot roles are inserted after infrastructure roles and overwrite them. When the team has
  no member, that username is the only key added to the map.
\<close>

theorem robot_role_overwrites_infrastructure_role:
  assumes "InfrastructureRoles c = [(username, data)]"
      and "Users (Spec c) = [(username, userFlags)]"
      and "isValidUsername w username"
      and "normalizeUserFlags w (Flags data) = Inr flags1"
      and "normalizeUserFlags w userFlags = Inr flags2"
      and "getTeamMembers w = Inr teamMembers" and "username \<notin> set teamMembers"
  shows "\<exists>c'. initUsers w c = (None, c') \<and>
           pgUsers c' username =
             Some \<lparr>pgName = username, Password = RandomPassword w (passwordsDrawn c + 2) (PasswordLength w),
                   Flags = flags2, MemberOf = []\<rparr> \<and>
           (teamMembers = [] \<longrightarrow> dom (pgUsers c') = insert username (dom (pgUsers c)))"
  using assms
  by (simp add: initUsers_def initInfrastructureRoles_def initRobotUsers_def initHumanUsers_def
      initSystemUsers_fields drawPassword_def initHumanUsersLoop_other Let_def)

theorem robot_role_overwrites_infrastructure_role_witness:
  "isValidUsername exampleRoleSources ''app''
   \<and> (\<exists>c'. initUsers exampleRoleSources exampleCluster = (None, c') \<and>
           pgUsers c' ''app'' = Some \<lparr>pgName = ''app'', Password = ''charlie'', Flags = [''LOGIN''], MemberOf = []\<rparr>
           \<and> dom (pgUsers c') = {''app''})"
  using robot_role_overwrites_infrastructure_role
    [of exampleCluster "''app''" exampleInfrastructureRole "[''LOGIN'']" exampleRoleSources
        "[''SUPERUSER'']" "[''LOGIN'']" "[]"]
  by (simp add: exampleCluster_def New_def exampleRoleSources_def
      exampleSpec_def exampleInfrastructureRole_def)


section \<open>Properties of the filesystem resize\<close>

lemma hasPrefix_iff: "hasPrefix s p \<longleftrightarrow> prefix p s"
  by (induction s p rule: hasPrefix.induct) auto

lemma Contains_iff: "Contains s substr \<longleftrightarrow> sublist substr s"
  by (induction s) (auto simp: hasPrefix_iff sublist_Cons_right)

lemma matchHere_Nil: "matchHere r [] \<longleftrightarrow> r = []"
proof (cases r)
  case Nil
  then show ?thesis by simp
next
  case (Cons i r')
  then show ?thesis by (cases i) auto
qed

lemma denotes_Nil: "denotes r [] \<longleftrightarrow> r = []"
proof (cases r)
  case Nil
  then show ?thesis by simp
next
  case (Cons i r')
  then show ?thesis by (cases i) auto
qed

lemma matchHere_iff: "matchHere r s \<longleftrightarrow> (\<exists>m t. s = m @ t \<and> denotes r m)"
proof (induction s arbitrary: r)
  case Nil
  then show ?case by (simp add: matchHere_Nil denotes_Nil)
next
  case (Cons c s)
  show ?case
  proof (cases r)
    case Nil
    then show ?thesis by simp
  next
    case r: (Cons i r')
    show ?thesis
    proof (cases i)
      case (One p)
      show ?thesis
      proof
        assume "matchHere r (c # s)"
        then have "p c" "matchHere r' s" using r One by (simp_all split: if_splits)
        then obtain m t where "s = m @ t" "denotes r' m" using Cons.IH by blast
        then have "c # s = (c # m) @ t \<and> denotes r (c # m)" using \<open>p c\<close> r One by simp
        then show "\<exists>m t. c # s = m @ t \<and> denotes r m" by blast
      next
        assume "\<exists>m t. c # s = m @ t \<and> denotes r m"
        then obtain m t c' m' where "c # s = m @ t" "m = c' # m'" "p c'" "denotes r' m'"
          using r One by auto
        then have "p c" "s = m' @ t" "denotes r' m'" by auto
        then have "p c" "matchHere r' s" using Cons.IH by blast+
        then show "matchHere r (c # s)" using r One by simp
      qed
    next
      case (OneOrMore p)
      show ?thesis
      proof
        assume a: "matchHere r (c # s)"
        then have pc: "p c" using r OneOrMore by (simp split: if_splits)
        from a have "matchHere r' s \<or> matchHere r s" using r OneOrMore by (simp split: if_splits)
        then show "\<exists>m t. c # s = m @ t \<and> denotes r m"
        proof
          assume "matchHere r' s"
          then obtain m t where "s = m @ t" "denotes r' m" using Cons.IH by blast
          then have "c # s = (c # m) @ t" "c # m = [c] @ m" "[c] \<noteq> []" "list_all p [c]" "denotes r' m"
            using pc by auto
          then have "c # s = (c # m) @ t \<and> denotes r (c # m)"
            unfolding r OneOrMore denotes.simps by blast
          then show ?thesis by blast
        next
          assume "matchHere r s"
          then obtain m t where mt: "s = m @ t" "denotes r m" using Cons.IH by blast
          then obtain cs u where "m = cs @ u" "cs \<noteq> []" "list_all p cs" "denotes r' u"
            using r OneOrMore by auto
          then have "c # m = (c # cs) @ u" "c # cs \<noteq> []" "list_all p (c # cs)" "denotes r' u"
            using pc by auto
          then have "denotes r (c # m)"
            unfolding r OneOrMore denotes.simps by blast
          then have "c # s = (c # m) @ t \<and> denotes r (c # m)" using mt by simp
          then show ?thesis by blast
        qed
      next
        assume "\<exists>m t. c # s = m @ t \<and> denotes r m"
        then obtain m t cs u where
          e: "c # s = m @ t" "m = cs @ u" "cs \<noteq> []" "list_all p cs" "denotes r' u"
          using r OneOrMore by auto
        then obtain cs' where cs: "cs = c # cs'" by (cases cs) auto
        then have pc: "p c" and s: "s = cs' @ u @ t" and all: "list_all p cs'" using e by auto
        show "matchHere r (c # s)"
        proof (cases "cs' = []")
          case True
          then have "s = u @ t" using s by simp
          then have "matchHere r' s" using Cons.IH e by blast
          then show ?thesis using pc r OneOrMore by simp
        next
          case False
          then have "denotes r (cs' @ u)" using all e r OneOrMore by auto
          moreover have "s = (cs' @ u) @ t" using s by simp
          ultimately have "matchHere r s" using Cons.IH by blast
          then show ?thesis using pc r OneOrMore by simp
        qed
      qed
    qed
  qed
qed

lemma MatchString_iff: "MatchString r s \<longleftrightarrow> (\<exists>pre m post. s = pre @ m @ post \<and> denotes r m)"
proof (induction s)
  case Nil
  then show ?case by (auto simp: matchHere_iff)
next
  case (Cons c s)
  show ?case
  proof
    assume "MatchString r (c # s)"
    then have "matchHere r (c # s) \<or> MatchString r s" by (simp split: if_splits)
    then show "\<exists>pre m post. c # s = pre @ m @ post \<and> denotes r m"
    proof
      assume "matchHere r (c # s)"
      then obtain m t where "c # s = [] @ m @ t" "denotes r m" by (auto simp: matchHere_iff)
      then show ?thesis by blast
    next
      assume "MatchString r s"
      then obtain pre m post where "s = pre @ m @ post" "denotes r m" using Cons by auto
      then have "c # s = (c # pre) @ m @ post" "denotes r m" by auto
      then show ?thesis by blast
    qed
  next
    assume "\<exists>pre m post. c # s = pre @ m @ post \<and> denotes r m"
    then obtain pre m post where e: "c # s = pre @ m @ post" "denotes r m" by auto
    show "MatchString r (c # s)"
    proof (cases pre)
      case Nil
      then have "matchHere r (c # s)" using e by (auto simp: matchHere_iff)
      then show ?thesis by simp
    next
      case (Cons a pre')
      then have "s = pre' @ m @ post" using e by simp
      then have "MatchString r s" using e Cons.IH by blast
      then show ?thesis by simp
    qed
  qed
qed

lemma denotes_literal: "denotes (literal l @ r) s \<longleftrightarrow> (\<exists>t. s = l @ t \<and> denotes r t)"
  by (induction l arbitrary: s) (auto simp: literal_def)

lemma denotes_OneOrMore: "denotes (OneOrMore p # r) s \<longleftrightarrow> (\<exists>cs t. s = cs @ t \<and> cs \<noteq> [] \<and> list_all p cs \<and> denotes r t)"
  by simp

lemma denotes_One_last: "denotes [One p] s \<longleftrightarrow> (\<exists>c. s = [c] \<and> p c)"
  by auto



lemma denotes_shape:
  "denotes (literal l1 @ [OneOrMore p1] @ literal l2 @ [OneOrMore p2] @ literal l3
            @ [OneOrMore p3, OneOrMore p4] @ literal l4 @ [One p5]) m \<longleftrightarrow>
   (\<exists>a b k u c. m = l1 @ a @ l2 @ b @ l3 @ k @ u @ l4 @ [c]
      \<and> a \<noteq> [] \<and> list_all p1 a \<and> b \<noteq> [] \<and> list_all p2 b
      \<and> k \<noteq> [] \<and> list_all p3 k \<and> u \<noteq> [] \<and> list_all p4 u \<and> p5 c)"
  (is "?L \<longleftrightarrow> ?R")
proof
  assume ?L
  then obtain t1 where 1: "m = l1 @ t1"
      "denotes ([OneOrMore p1] @ literal l2 @ [OneOrMore p2] @ literal l3
            @ [OneOrMore p3, OneOrMore p4] @ literal l4 @ [One p5]) t1"
    unfolding denotes_literal by blast
  then obtain a t2 where 2: "t1 = a @ t2" "a \<noteq> []" "list_all p1 a"
      "denotes (literal l2 @ [OneOrMore p2] @ literal l3
            @ [OneOrMore p3, OneOrMore p4] @ literal l4 @ [One p5]) t2"
    by auto
  then obtain t3 where 3: "t2 = l2 @ t3"
      "denotes ([OneOrMore p2] @ literal l3 @ [OneOrMore p3, OneOrMore p4] @ literal l4 @ [One p5]) t3"
    unfolding denotes_literal by blast
  then obtain b t4 where 4: "t3 = b @ t4" "b \<noteq> []" "list_all p2 b"
      "denotes (literal l3 @ [OneOrMore p3, OneOrMore p4] @ literal l4 @ [One p5]) t4"
    by auto
  then obtain t5 where 5: "t4 = l3 @ t5"
      "denotes ([OneOrMore p3, OneOrMore p4] @ literal l4 @ [One p5]) t5"
    unfolding denotes_literal by blast
  then obtain k t6 where 6: "t5 = k @ t6" "k \<noteq> []" "list_all p3 k"
      "denotes ([OneOrMore p4] @ literal l4 @ [One p5]) t6"
    by auto
  then obtain u t7 where 7: "t6 = u @ t7" "u \<noteq> []" "list_all p4 u"
      "denotes (literal l4 @ [One p5]) t7"
    by auto
  then obtain c where 8: "t7 = l4 @ [c]" "p5 c"
    unfolding denotes_literal denotes_One_last by blast
  have "m = l1 @ a @ l2 @ b @ l3 @ k @ u @ l4 @ [c]"
    using 1 2 3 4 5 6 7 8 by simp
  then show ?R using 2 4 6 7 8 by blast
next
  assume ?R
  then obtain a b k u c where m: "m = l1 @ a @ l2 @ b @ l3 @ k @ u @ l4 @ [c]"
    and p: "a \<noteq> []" "list_all p1 a" "b \<noteq> []" "list_all p2 b"
      "k \<noteq> []" "list_all p3 k" "u \<noteq> []" "list_all p4 u" "p5 c"
    by blast
  have 8: "denotes (literal l4 @ [One p5]) (l4 @ [c])"
    unfolding denotes_literal denotes_One_last using p by blast
  have 7: "denotes ([OneOrMore p4] @ literal l4 @ [One p5]) (u @ l4 @ [c])"
    using 8 p by auto
  have 6: "denotes ([OneOrMore p3, OneOrMore p4] @ literal l4 @ [One p5]) (k @ u @ l4 @ [c])"
    using 7 p by auto
  have 5: "denotes (literal l3 @ [OneOrMore p3, OneOrMore p4] @ literal l4 @ [One p5]) (l3 @ k @ u @ l4 @ [c])"
    unfolding denotes_literal using 6 by blast
  have 4: "denotes ([OneOrMore p2] @ literal l3 @ [OneOrMore p3, OneOrMore p4] @ literal l4 @ [One p5])
             (b @ l3 @ k @ u @ l4 @ [c])"
    using 5 p by auto
  have 3: "denotes (literal l2 @ [OneOrMore p2] @ literal l3 @ [OneOrMore p3, OneOrMore p4] @ literal l4 @ [One p5])
             (l2 @ b @ l3 @ k @ u @ l4 @ [c])"
    unfolding denotes_literal using 4 by blast
  have 2: "denotes ([OneOrMore p1] @ literal l2 @ [OneOrMore p2] @ literal l3 @ [OneOrMore p3, OneOrMore p4]
             @ literal l4 @ [One p5]) (a @ l2 @ b @ l3 @ k @ u @ l4 @ [c])"
    using 3 p by auto
  show ?L unfolding denotes_literal m using 2 by blast
qed

lemma MatchString_shape:
  "MatchString (literal l1 @ [OneOrMore p1] @ literal l2 @ [OneOrMore p2] @ literal l3
            @ [OneOrMore p3, OneOrMore p4] @ literal l4 @ [One p5]) out \<longleftrightarrow>
   (\<exists>before a b k u c after. out = before @ l1 @ a @ l2 @ b @ l3 @ k @ u @ l4 @ [c] @ after
      \<and> a \<noteq> [] \<and> list_all p1 a \<and> b \<noteq> [] \<and> list_all p2 b
      \<and> k \<noteq> [] \<and> list_all p3 k \<and> u \<noteq> [] \<and> list_all p4 u \<and> p5 c)"
  (is "?L \<longleftrightarrow> ?R")
proof
  assume ?L
  then obtain before m after where o: "out = before @ m @ after"
    and "denotes (literal l1 @ [OneOrMore p1] @ literal l2 @ [OneOrMore p2] @ literal l3
            @ [OneOrMore p3, OneOrMore p4] @ literal l4 @ [One p5]) m"
    unfolding MatchString_iff by blast
  then obtain a b k u c where m: "m = l1 @ a @ l2 @ b @ l3 @ k @ u @ l4 @ [c]"
    and p: "a \<noteq> []" "list_all p1 a" "b \<noteq> []" "list_all p2 b"
      "k \<noteq> []" "list_all p3 k" "u \<noteq> []" "list_all p4 u" "p5 c"
    unfolding denotes_shape by blast
  have "out = before @ l1 @ a @ l2 @ b @ l3 @ k @ u @ l4 @ [c] @ after"
    using o m by simp
  then show ?R using p by blast
next
  assume ?R
  then obtain before a b k u c after where
    o: "out = before @ l1 @ a @ l2 @ b @ l3 @ k @ u @ l4 @ [c] @ after"
    and p: "a \<noteq> []" "list_all p1 a" "b \<noteq> []" "list_all p2 b"
      "k \<noteq> []" "list_all p3 k" "u \<noteq> []" "list_all p4 u" "p5 c"
    by blast
  have "denotes (literal l1 @ [OneOrMore p1] @ literal l2 @ [OneOrMore p2] @ literal l3
            @ [OneOrMore p3, OneOrMore p4] @ literal l4 @ [One p5]) (l1 @ a @ l2 @ b @ l3 @ k @ u @ l4 @ [c])"
    unfolding denotes_shape using p by blast
  moreover have "out = before @ (l1 @ a @ l2 @ b @ l3 @ k @ u @ l4 @ [c]) @ after"
    using o by simp
  ultimately show ?L unfolding MatchString_iff by blast
qed

lemma MatchString_ext2fsSuccessRegexp:
  "MatchString ext2fsSuccessRegexp out \<longleftrightarrow> acceptedBySuccessRegexp out"
  unfolding ext2fsSuccessRegexp_def acceptedBySuccessRegexp_def
  by (simp only: MatchString_shape anyChar_def)

text \<open>
  When \<open>resizeVolumeFS\<close> returns no error: the remote command succeeded and the output
  contains "Nothing to do", or contains "on-line resizing required" and a part that the
  expression accepts. Any other output of a successful command is an error.
\<close>

lemma resizeVolumeFS_None_iff:
  assumes "ExecCommand w podName = (out, err)"
  shows "resizeVolumeFS w podName = None \<longleftrightarrow>
           err = None \<and> (sublist ''Nothing to do'' out
                         \<or> (sublist ''on-line resizing required'' out \<and> acceptedBySuccessRegexp out))"
  using assms
  by (cases err) (simp_all add: resizeVolumeFS_def Contains_iff MatchString_ext2fsSuccessRegexp)

lemma resizeVolumeFS_unrecognized:
  assumes "ExecCommand w podName = (out, None)" and "resizeVolumeFS w podName \<noteq> None"
  shows "resizeVolumeFS w podName = Some (Error (''unrecognized output: '' @ out @ '', assuming error''))"
  using assms by (simp add: resizeVolumeFS_def split: if_splits)

lemma resizeVolumeFS_empty_output:
  assumes "ExecCommand w podName = ([], None)"
  shows "resizeVolumeFS w podName = Some (Error ''unrecognized output: , assuming error'')"
  using assms by (simp add: resizeVolumeFS_def)

lemmas regexp_defs = ext2fsSuccessRegexp_def literal_def digit_def wordChar_def deviceChar_def anyChar_def


lemma specSuccessPattern_has_period:
  assumes "specSuccessPattern out"
  shows "sublist ''blocks long.'' out"
proof -
  from assms obtain before device n unit after where
    "out = before @ ''The filesystem on '' @ device @ '' is now '' @ n @ '' ('' @ unit
              @ '') blocks long.'' @ after"
    unfolding specSuccessPattern_def by blast
  then have "out = (before @ ''The filesystem on '' @ device @ '' is now '' @ n @ '' ('' @ unit @ '') '')
                   @ ''blocks long.'' @ after"
    by simp
  then show ?thesis unfolding sublist_def by blast
qed

text \<open>
  Claim C7 at the failing input. The remote command succeeds and prints the usual report
  with an exclamation mark where the period stands; the output does not contain "Nothing
  to do" and does not match the pattern of the specification, which ends in a period, yet
  \<open>resizeVolumeFS\<close> returns no error: the last \<open>.\<close> of the expression is not escaped and
  matches any character.
\<close>

theorem resizeVolumeFS_accepts_other_final_character:
  "ExecCommand (exampleVolumeClients\<lparr>ExecCommand := (\<lambda>podName. (resize2fsOutputExclaimed, None))\<rparr>) examplePod
     = (resize2fsOutputExclaimed, None)
   \<and> resizeVolumeFS (exampleVolumeClients\<lparr>ExecCommand := (\<lambda>podName. (resize2fsOutputExclaimed, None))\<rparr>)
        examplePod = None
   \<and> \<not> specRecognisedOutput resize2fsOutputExclaimed"
proof -
  have 1: "resizeVolumeFS (exampleVolumeClients\<lparr>ExecCommand := (\<lambda>podName. (resize2fsOutputExclaimed, None))\<rparr>)
             examplePod = None"
    by (simp add: resizeVolumeFS_def resize2fsOutputExclaimed_def regexp_defs)
  have 2: "\<not> sublist ''Nothing to do'' resize2fsOutputExclaimed"
    unfolding Contains_iff [symmetric] by (simp add: resize2fsOutputExclaimed_def)
  have "\<not> sublist ''blocks long.'' resize2fsOutputExclaimed"
    unfolding Contains_iff [symmetric] by (simp add: resize2fsOutputExclaimed_def)
  then have 3: "\<not> specSuccessPattern resize2fsOutputExclaimed"
    using specSuccessPattern_has_period by blast
  show ?thesis using 1 2 3 by (simp add: specRecognisedOutput_def)
qed


section \<open>Properties of the volume-resize orchestrator\<close>



























section \<open>Properties of the pod-event queue\<close>

text \<open>
  Claim C9. The key of a pod event is the string form of the pod identity, a "-" and the
  resource version. The key function is not injective: the pod \<open>default/acid-test\<close> at
  resource version \<open>0-7\<close> and the pod \<open>default/acid-test-0\<close> at resource version \<open>7\<close> are
  two distinct pairs with the key \<open>default/acid-test-0-7\<close>, and receiving both leaves one
  entry in the queue.
\<close>

theorem podEventsQueue_keyFunc_not_injective:
  "(\<forall>e. podEventsQueue_keyFunc e = NamespacedName_String (PodName e) @ ''-'' @ ResourceVersion e)
   \<and> (\<exists>e1 e2. (PodName e1, ResourceVersion e1) \<noteq> (PodName e2, ResourceVersion e2)
        \<and> podEventsQueue_keyFunc e1 = podEventsQueue_keyFunc e2
        \<and> ReceivePodEvent e2 (ReceivePodEvent e1 []) = [podEventsQueue_keyFunc e1])
   \<and> \<not> inj podEventsQueue_keyFunc"
proof (intro conjI)
  define e1 where "e1 = \<lparr>ResourceVersion = ''0-7'', PodName = \<lparr>Namespace = ''default'', Name = ''acid-test''\<rparr>,
                         EventType = EventUpdate\<rparr>"
  define e2 where "e2 = \<lparr>ResourceVersion = ''7'', PodName = \<lparr>Namespace = ''default'', Name = ''acid-test-0''\<rparr>,
                         EventType = EventUpdate\<rparr>"
  have d: "(PodName e1, ResourceVersion e1) \<noteq> (PodName e2, ResourceVersion e2)"
    by (simp add: e1_def e2_def)
  have k: "podEventsQueue_keyFunc e1 = podEventsQueue_keyFunc e2"
    by (simp add: e1_def e2_def podEventsQueue_keyFunc_def NamespacedName_String_def)
  have q: "ReceivePodEvent e2 (ReceivePodEvent e1 []) = [podEventsQueue_keyFunc e1]"
    using k by (simp add: ReceivePodEvent_def FIFO_Add_def)
  show "\<forall>e. podEventsQueue_keyFunc e = NamespacedName_String (PodName e) @ ''-'' @ ResourceVersion e"
    by (simp add: podEventsQueue_keyFunc_def)
  show "\<exists>e1 e2. (PodName e1, ResourceVersion e1) \<noteq> (PodName e2, ResourceVersion e2)
        \<and> podEventsQueue_keyFunc e1 = podEventsQueue_keyFunc e2
        \<and> ReceivePodEvent e2 (ReceivePodEvent e1 []) = [podEventsQueue_keyFunc e1]"
    using d k q by blast
  have "e1 \<noteq> e2" using d by auto
  then show "\<not> inj podEventsQueue_keyFunc" using k by (auto simp: inj_def)
qed

section \<open>Properties of the lifecycle driver\<close>

lemmas lifecycle_defs =
  Create_def Create_body_def Create_ListResources_def setStatus_def exampleCollaborators_def
  Update_def sameServiceWith_def sameVolumeWith_def exampleRunningCluster_def

text \<open>
  Claim C1 at the failing input. Every step up to the readiness wait succeeds, the cluster
  has a master and database access is enabled, and \<open>initDbConn\<close> fails. \<open>Create\<close>
  returns the error "could not init db connection: ...", and the deferred function sets the
  status \<open>Running\<close>: the requests sent are \<open>Creating\<close> and then \<open>Running\<close>, and
  \<open>AddFailed\<close> is never set.
\<close>

theorem Create_initDbConn_failure_sets_Running:
  "fst (Create (exampleCollaborators\<lparr>initDbConn := Some ''connection refused''\<rparr>) exampleCluster)
     = Some (Error ''could not init db connection: connection refused'')
   \<and> Status (snd (Create (exampleCollaborators\<lparr>initDbConn := Some ''connection refused''\<rparr>) exampleCluster))
     = ClusterStatusRunning
   \<and> statusRequests (snd (Create (exampleCollaborators\<lparr>initDbConn := Some ''connection refused''\<rparr>) exampleCluster))
     = [ClusterStatusCreating, ClusterStatusRunning]"
  by (simp add: lifecycle_defs role_defs)

text \<open>
  The other way round: when only \<open>ListResources\<close> fails, \<open>Create\<close> returns no error and
  the deferred function sets \<open>AddFailed\<close>. When every step succeeds, \<open>Create\<close> returns no
  error and sets \<open>Running\<close>; when the endpoint cannot be created, it returns the error and
  sets \<open>AddFailed\<close>.
\<close>

lemma Create_ListResources_failure_sets_AddFailed:
  "fst (Create (exampleCollaborators\<lparr>ListResources := Some ''timeout''\<rparr>) exampleCluster) = None
   \<and> Status (snd (Create (exampleCollaborators\<lparr>ListResources := Some ''timeout''\<rparr>) exampleCluster))
     = ClusterStatusAddFailed"
  by (simp add: lifecycle_defs role_defs)

lemma Create_success_sets_Running:
  "fst (Create exampleCollaborators exampleCluster) = None
   \<and> Status (snd (Create exampleCollaborators exampleCluster)) = ClusterStatusRunning"
  by (simp add: lifecycle_defs role_defs)

lemma Create_createEndpoint_failure_sets_AddFailed:
  assumes "createEndpoint w = Some e"
  shows "fst (Create w c) = Some (Error (''could not create endpoint: '' @ e))
       \<and> Status (snd (Create w c)) = ClusterStatusAddFailed"
  using assms by (simp add: Create_def Create_body_def setStatus_def)

text \<open>
  Claim C2 at the failing input. The new specification asks for a volume of 20 GiB where
  the cluster has 10 GiB, and the block-storage provider refuses the resize. \<open>Update\<close>
  returns the error "Could not update volumes: ...", and the status stays \<open>Updating\<close>:
  the only request sent is \<open>Updating\<close>, and \<open>UpdateFailed\<close> is never set.
\<close>

theorem Update_volume_failure_leaves_Updating:
  "fst (Update (exampleCollaborators\<lparr>volumeClients :=
           exampleVolumeClients\<lparr>ResizeVolume := (\<lambda>awsVolumeId newSize. Some ''RequestLimitExceeded'')\<rparr>\<rparr>)
         exampleRunningCluster (exampleSpec\<lparr>Volume := \<lparr>Size = ''20Gi'', StorageClass = ''gp2''\<rparr>\<rparr>))
     = Some (Error ''Could not update volumes: could not resize EBS volume vol-00f93d4827217c629: RequestLimitExceeded'')
   \<and> Status (snd (Update (exampleCollaborators\<lparr>volumeClients :=
           exampleVolumeClients\<lparr>ResizeVolume := (\<lambda>awsVolumeId newSize. Some ''RequestLimitExceeded'')\<rparr>\<rparr>)
         exampleRunningCluster (exampleSpec\<lparr>Volume := \<lparr>Size = ''20Gi'', StorageClass = ''gp2''\<rparr>\<rparr>)))
     = ClusterStatusUpdating
   \<and> statusRequests (snd (Update (exampleCollaborators\<lparr>volumeClients :=
           exampleVolumeClients\<lparr>ResizeVolume := (\<lambda>awsVolumeId newSize. Some ''RequestLimitExceeded'')\<rparr>\<rparr>)
         exampleRunningCluster (exampleSpec\<lparr>Volume := \<lparr>Size = ''20Gi'', StorageClass = ''gp2''\<rparr>\<rparr>)))
     = [ClusterStatusUpdating]"
  by (simp add: lifecycle_defs updateVolumes_def updateVolume_def newQuantityOf_def newSizeOf_def
      quot_def ScaledValue0_def capacityStorage_def index_ResourceList_def ResourceStorage_def
      getAWSVolumeId_def exampleVolumeClients_def examplePV1_def examplePV2_def
      exampleCluster_def New_def exampleSpec_def Let_def)

text \<open>
  The sibling paths: a failing service update sets \<open>UpdateFailed\<close>, and a run in which
  every step succeeds sets \<open>Running\<close> and returns no error.
\<close>

lemma Update_service_failure_sets_UpdateFailed:
  "fst (Update (exampleCollaborators\<lparr>updateService := (\<lambda>service. Some ''conflict'')\<rparr>)
         exampleRunningCluster (exampleSpec\<lparr>AllowedSourceRanges := Some [''192.168.0.0/16'']\<rparr>))
     = Some (Error ''could not update service: conflict'')
   \<and> Status (snd (Update (exampleCollaborators\<lparr>updateService := (\<lambda>service. Some ''conflict'')\<rparr>)
         exampleRunningCluster (exampleSpec\<lparr>AllowedSourceRanges := Some [''192.168.0.0/16'']\<rparr>)))
     = ClusterStatusUpdateFailed"
  by (simp add: lifecycle_defs exampleCluster_def New_def exampleSpec_def)

lemma Update_success_sets_Running:
  "fst (Update exampleCollaborators exampleRunningCluster exampleSpec) = None
   \<and> Status (snd (Update exampleCollaborators exampleRunningCluster exampleSpec)) = ClusterStatusRunning"
  by (simp add: lifecycle_defs exampleCluster_def New_def exampleSpec_def differ_defs)

end
